theory Spec2Isabelle
  imports Main "HOL-Library.Word"
begin

text \<open>
  The HTTP backend of poc_webapp (\<open>src/go/main.go\<close>): events, persons and images in a
  relational store, with tagging tables between them. Each handler is a function from
  what the framework hands it and the world (store, disk, log, pending answers) to its
  answer and the world it leaves; the properties proved are about these functions.
\<close>

section \<open>Data model (main.go, lines 19-79)\<close>

definition imagesPath :: string where
  "imagesPath = ''../public/images''"

definition mysqlErrNumDuplicateEntry :: int where
  "mysqlErrNumDuplicateEntry = 1062"

text \<open>
  Go's \<open>int\<close> and \<open>int64\<close> fields are modelled by \<open>int\<close>: the program never computes
  with them, it only passes them to the store and prints them. \<open>time.Time\<close> is kept as
  the integer the store holds for the date.
\<close>

record Event =
  EventID :: int
  AccountID :: int
  Title :: string
  Description :: string
  EventDate :: int

record NewEvent =
  Title :: string
  Description :: string
  EventDate :: int

record Person =
  PersonId :: int
  FirstName :: string
  LastName :: string

record Image =
  ImageId :: int
  ImageName :: string
  ContentType :: string

record ImageAndPath =
  ImagePath :: string
  Image :: Image

text \<open>
  \<open>EventDatail\<close> holds pointers to the three values built by the handler; the model
  holds the values. A Go slice that was never appended to (\<open>nil\<close>) is the empty list.
\<close>

record EventDatail =
  Event :: Event
  Persons :: "Person list"
  ImageAndPaths :: "ImageAndPath list"

definition zero_NewEvent :: NewEvent where
  "zero_NewEvent = \<lparr>NewEvent.Title = [], Description = [], EventDate = 0\<rparr>"

definition zero_Person :: Person where
  "zero_Person = \<lparr>PersonId = 0, FirstName = [], LastName = []\<rparr>"

section \<open>The collaborators: store, disk, logger, request\<close>

text \<open>
  The relational store, the disk and the HTTP framework are not part of the program. They
  are modelled as far as the handlers use them. An error value is what a call of
  \<open>database/sql\<close>, \<open>os\<close> or \<open>io\<close> returns: \<open>sql.ErrNoRows\<close>, \<open>sql.ErrTxDone\<close>, a
  \<open>*mysql.MySQLError\<close> with its 16-bit number, or any other error.
\<close>

datatype error = ErrNoRows | ErrTxDone | MySQLError "16 word" | OtherError string

record database =
  events :: "Event list"
  persons :: "Person list"
  images :: "Image list"
  event_person_tagging :: "(int \<times> int) list"
  event_image_tagging :: "(int \<times> int) list"

text \<open>The statements the handlers execute, each with the operands bound to its \<open>?\<close>.\<close>

datatype stmt =
    InsertEvent string string int
  | InsertPerson string string
  | InsertImage string string
  | InsertEventPerson string int
  | InsertEventImage string int
  | DeleteEvent string
  | DeletePerson string
  | DeleteImage string

datatype call =
    Begin
  | Exec stmt
  | SelectLastInsertId
  | Commit
  | Rollback
  | GetEvent string
  | GetPerson string
  | GetImage string
  | QueryPersonsOfEvent string
  | QueryImagesOfEvent string
  | QueryText string

text \<open>
  The world a handler runs in.
  \<^item> \<open>db\<close> is the committed content of the store, \<open>tx\<close> the view of the handler's open
    transaction (\<open>None\<close> when there is none), \<open>last_insert_id\<close> the connection's
    \<open>LAST_INSERT_ID()\<close>, \<open>next_*_id\<close> the tables' auto-increment counters.
  \<^item> \<open>coerce\<close> is the store's reading of a textual path parameter as a key: the handlers
    pass \<open>c.Param\<close> to the store as it is.
  \<^item> \<open>faults\<close> is what the collaborators will answer: every call that can fail takes the
    next entry, \<open>Some e\<close> for the error \<open>e\<close>, \<open>None\<close> for success; an exhausted
    list means success. Whether the store rejects a row (a unique or foreign key, a
    value it cannot convert) is the store's decision and arrives through this list.
  \<^item> \<open>calls\<close> is the sequence of calls that reached the store, \<open>files\<close> the disk,
    \<open>logs\<close> the format strings given to \<open>c.Logger().Errorf\<close>.
  One request is handled at a time.
\<close>

record world =
  db :: database
  tx :: "database option"
  last_insert_id :: int
  next_event_id :: int
  next_person_id :: int
  next_image_id :: int
  coerce :: "string \<Rightarrow> int"
  faults :: "error option list"
  calls :: "call list"
  files :: "string \<rightharpoonup> string"
  logs :: "string list"

definition Errorf :: "string \<Rightarrow> world \<Rightarrow> world" where
  "Errorf format w = w\<lparr>logs := logs w @ [format]\<rparr>"

definition record_call :: "call \<Rightarrow> world \<Rightarrow> world" where
  "record_call c w = w\<lparr>calls := calls w @ [c]\<rparr>"

definition next_fault :: "world \<Rightarrow> error option \<times> world" where
  "next_fault w = (case faults w of [] \<Rightarrow> (None, w) | f # fs \<Rightarrow> (f, w\<lparr>faults := fs\<rparr>))"

text \<open>\<open>db.Beginx()\<close>: the transaction starts from the committed content.\<close>

definition db_Beginx :: "world \<Rightarrow> error option \<times> world" where
  "db_Beginx w =
     (case next_fault (record_call Begin w) of
        (Some e, w1) \<Rightarrow> (Some e, w1)
      | (None, w1) \<Rightarrow> (None, w1\<lparr>tx := Some (db w1)\<rparr>))"

text \<open>
  What a statement the store accepts does to the transaction's view. An insert into a
  table with a generated key takes the table's counter, which is not part of the
  transaction.
\<close>

fun run_stmt :: "stmt \<Rightarrow> database \<Rightarrow> world \<Rightarrow> world" where
  "run_stmt (InsertEvent title description eventDate) t w =
     w\<lparr>tx := Some (t\<lparr>events := events t @
            [\<lparr>EventID = next_event_id w, AccountID = 1, Title = title,
              Description = description, EventDate = eventDate\<rparr>]\<rparr>),
       last_insert_id := next_event_id w,
       next_event_id := next_event_id w + 1\<rparr>"
| "run_stmt (InsertPerson firstname lastname) t w =
     w\<lparr>tx := Some (t\<lparr>persons := persons t @
            [\<lparr>PersonId = next_person_id w, FirstName = firstname, LastName = lastname\<rparr>]\<rparr>),
       last_insert_id := next_person_id w,
       next_person_id := next_person_id w + 1\<rparr>"
| "run_stmt (InsertImage image_name mime_type) t w =
     w\<lparr>tx := Some (t\<lparr>images := images t @
            [\<lparr>ImageId = next_image_id w, ImageName = image_name, ContentType = mime_type\<rparr>]\<rparr>),
       last_insert_id := next_image_id w,
       next_image_id := next_image_id w + 1\<rparr>"
| "run_stmt (InsertEventPerson eventID personID) t w =
     w\<lparr>tx := Some (t\<lparr>event_person_tagging :=
            event_person_tagging t @ [(coerce w eventID, personID)]\<rparr>)\<rparr>"
| "run_stmt (InsertEventImage eventID imageID) t w =
     w\<lparr>tx := Some (t\<lparr>event_image_tagging :=
            event_image_tagging t @ [(coerce w eventID, imageID)]\<rparr>)\<rparr>"
| "run_stmt (DeleteEvent eventID) t w =
     w\<lparr>tx := Some (t\<lparr>events := filter (\<lambda>r. EventID r \<noteq> coerce w eventID) (events t)\<rparr>)\<rparr>"
| "run_stmt (DeletePerson personID) t w =
     w\<lparr>tx := Some (t\<lparr>persons := filter (\<lambda>r. PersonId r \<noteq> coerce w personID) (persons t)\<rparr>)\<rparr>"
| "run_stmt (DeleteImage imageID) t w =
     w\<lparr>tx := Some (t\<lparr>images := filter (\<lambda>r. ImageId r \<noteq> coerce w imageID) (images t)\<rparr>)\<rparr>"

text \<open>\<open>tx.Exec\<close>: on a finished transaction it returns \<open>sql.ErrTxDone\<close> without a call.\<close>

definition tx_Exec :: "stmt \<Rightarrow> world \<Rightarrow> error option \<times> world" where
  "tx_Exec s w =
     (case tx w of
        None \<Rightarrow> (Some ErrTxDone, w)
      | Some t \<Rightarrow>
          (case next_fault (record_call (Exec s) w) of
             (Some e, w1) \<Rightarrow> (Some e, w1)
           | (None, w1) \<Rightarrow> (None, run_stmt s t w1)))"

text \<open>
  \<open>tx.Get(&id, "SELECT LAST_INSERT_ID()")\<close> scans the store's value into a Go \<open>int\<close>
  (64 bits). A value that does not fit is a scan error, as any other error of the call.
\<close>

definition fits_int :: "int \<Rightarrow> bool" where
  "fits_int v = (- (2 ^ 63) \<le> v \<and> v < 2 ^ 63)"

definition tx_Get_LAST_INSERT_ID :: "world \<Rightarrow> (error + int) \<times> world" where
  "tx_Get_LAST_INSERT_ID w =
     (case tx w of
        None \<Rightarrow> (Inl ErrTxDone, w)
      | Some t \<Rightarrow>
          (case next_fault (record_call SelectLastInsertId w) of
             (Some e, w1) \<Rightarrow> (Inl e, w1)
           | (None, w1) \<Rightarrow>
               (if fits_int (last_insert_id w1) then (Inr (last_insert_id w1), w1)
                else (Inl (OtherError ''value out of range''), w1))))"

text \<open>
  \<open>tx.Commit()\<close>: the transaction is finished either way; its view becomes the committed
  content only when the store reports success.
\<close>

definition tx_Commit :: "world \<Rightarrow> error option \<times> world" where
  "tx_Commit w =
     (case tx w of
        None \<Rightarrow> (Some ErrTxDone, w)
      | Some t \<Rightarrow>
          (case next_fault (record_call Commit w) of
             (Some e, w1) \<Rightarrow> (Some e, w1\<lparr>tx := None\<rparr>)
           | (None, w1) \<Rightarrow> (None, w1\<lparr>db := t, tx := None\<rparr>)))"

text \<open>
  \<open>tx.Rollback()\<close>, whose result the handlers drop: the view of an open transaction is
  discarded; after a commit it is \<open>sql.ErrTxDone\<close> and nothing reaches the store.
\<close>

definition tx_Rollback :: "world \<Rightarrow> world" where
  "tx_Rollback w =
     (case tx w of
        None \<Rightarrow> w
      | Some t \<Rightarrow> (record_call Rollback w)\<lparr>tx := None\<rparr>)"

text \<open>\<open>defer tx.Rollback()\<close>: runs on every way out of the handler.\<close>

definition defer_Rollback :: "'a \<times> world \<Rightarrow> 'a \<times> world" where
  "defer_Rollback rw = (fst rw, tx_Rollback (snd rw))"

text \<open>\<open>db.Get\<close> with \<open>WHERE key = ?\<close>: the first matching committed row, or \<open>sql.ErrNoRows\<close>.\<close>

definition db_Get_event :: "string \<Rightarrow> world \<Rightarrow> (error + Event) \<times> world" where
  "db_Get_event eventID w =
     (case next_fault (record_call (GetEvent eventID) w) of
        (Some e, w1) \<Rightarrow> (Inl e, w1)
      | (None, w1) \<Rightarrow>
          (case find (\<lambda>r. EventID r = coerce w1 eventID) (events (db w1)) of
             None \<Rightarrow> (Inl ErrNoRows, w1)
           | Some r \<Rightarrow> (Inr r, w1)))"

definition db_Get_person :: "string \<Rightarrow> world \<Rightarrow> (error + Person) \<times> world" where
  "db_Get_person personID w =
     (case next_fault (record_call (GetPerson personID) w) of
        (Some e, w1) \<Rightarrow> (Inl e, w1)
      | (None, w1) \<Rightarrow>
          (case find (\<lambda>r. PersonId r = coerce w1 personID) (persons (db w1)) of
             None \<Rightarrow> (Inl ErrNoRows, w1)
           | Some r \<Rightarrow> (Inr r, w1)))"

definition db_Get_image :: "string \<Rightarrow> world \<Rightarrow> (error + Image) \<times> world" where
  "db_Get_image imageID w =
     (case next_fault (record_call (GetImage imageID) w) of
        (Some e, w1) \<Rightarrow> (Inl e, w1)
      | (None, w1) \<Rightarrow>
          (case find (\<lambda>r. ImageId r = coerce w1 imageID) (images (db w1)) of
             None \<Rightarrow> (Inl ErrNoRows, w1)
           | Some r \<Rightarrow> (Inr r, w1)))"

text \<open>
  \<open>select * from persons where person_id in (select distinct(person_id) from
  event_person_tagging where event_id = ?)\<close>, and the same for images.
\<close>

definition db_Queryx_persons_of_event :: "string \<Rightarrow> world \<Rightarrow> (error + Person list) \<times> world" where
  "db_Queryx_persons_of_event eventID w =
     (case next_fault (record_call (QueryPersonsOfEvent eventID) w) of
        (Some e, w1) \<Rightarrow> (Inl e, w1)
      | (None, w1) \<Rightarrow>
          (Inr (filter (\<lambda>r. PersonId r \<in> snd ` set (filter (\<lambda>t. fst t = coerce w1 eventID)
                  (event_person_tagging (db w1)))) (persons (db w1))), w1))"

definition db_Queryx_images_of_event :: "string \<Rightarrow> world \<Rightarrow> (error + Image list) \<times> world" where
  "db_Queryx_images_of_event eventID w =
     (case next_fault (record_call (QueryImagesOfEvent eventID) w) of
        (Some e, w1) \<Rightarrow> (Inl e, w1)
      | (None, w1) \<Rightarrow>
          (Inr (filter (\<lambda>r. ImageId r \<in> snd ` set (filter (\<lambda>t. fst t = coerce w1 eventID)
                  (event_image_tagging (db w1)))) (images (db w1))), w1))"

text \<open>
  \<open>db.Queryx\<close> on a text the handler has put together: what the store makes of the text
  is the parameter \<open>sql\<close>.
\<close>

definition db_Queryx_text :: "(string \<Rightarrow> database \<Rightarrow> 'r list) \<Rightarrow> string \<Rightarrow> world \<Rightarrow> (error + 'r list) \<times> world" where
  "db_Queryx_text sql text w =
     (case next_fault (record_call (QueryText text) w) of
        (Some e, w1) \<Rightarrow> (Inl e, w1)
      | (None, w1) \<Rightarrow> (Inr (sql text (db w1)), w1))"

text \<open>\<open>rows.StructScan\<close> of the row at hand.\<close>

definition rows_StructScan :: "'r \<Rightarrow> world \<Rightarrow> (error + 'r) \<times> world" where
  "rows_StructScan row w =
     (case next_fault w of
        (Some e, w1) \<Rightarrow> (Inl e, w1)
      | (None, w1) \<Rightarrow> (Inr row, w1))"

text \<open>
  The answers of the framework: \<open>c.NoContent\<close>, \<open>c.String\<close>, \<open>c.JSON\<close>, each with its
  status code.
\<close>

datatype payload =
    IdMap string int
  | PersonJSON Person
  | ImageAndPathJSON ImageAndPath
  | EventDatailJSON EventDatail
  | EventlistJSON "Event list"
  | PersonlistJSON "Person list"
  | ImageAndPathlistJSON "ImageAndPath list"

datatype response =
    NoContent nat
  | String nat string
  | JSON nat payload

fun status :: "response \<Rightarrow> nat" where
  "status (NoContent code) = code"
| "status (String code s) = code"
| "status (JSON code p) = code"

text \<open>
  \<open>err.(*mysql.MySQLError)\<close> followed by
  \<open>mysqlErr.Number == uint16(mysqlErrNumDuplicateEntry)\<close>.
\<close>

fun is_duplicate_entry :: "error \<Rightarrow> bool" where
  "is_duplicate_entry (MySQLError number) = (number = word_of_int mysqlErrNumDuplicateEntry)"
| "is_duplicate_entry other = False"

text \<open>
  \<open>c.Bind\<close> of the framework decodes the body into the structure the handler made. A
  body it can decode gives the decoded value. A body it cannot decode gives an error,
  and the structure holds what the decoder had stored before it failed: \<open>Malformed f\<close>
  is such a body, \<open>f\<close> what its decoding does to the structure. For a body that is not
  JSON at all, such as \<open>{\<close>, nothing is stored and \<open>f\<close> leaves the structure as it is.
\<close>

datatype 'a body = Decoded 'a | Malformed "'a \<Rightarrow> 'a"

fun c_Bind :: "'a body \<Rightarrow> 'a \<Rightarrow> 'a \<times> error option" where
  "c_Bind (Decoded v) target = (v, None)"
| "c_Bind (Malformed f) target = (f target, Some (OtherError ''bind''))"

text \<open>
  \<open>fmt.Sprintf("%d", i)\<close>: the decimal digits of \<open>i\<close>, after a minus sign when it is
  negative.
\<close>

fun decimal :: "nat \<Rightarrow> string" where
  "decimal n = (if n < 10 then [char_of (48 + n)] else decimal (n div 10) @ [char_of (48 + n mod 10)])"

declare decimal.simps [simp del]

definition Sprintf_d :: "int \<Rightarrow> string" where
  "Sprintf_d i = (if i < 0 then CHR ''-'' # decimal (nat (- i)) else decimal (nat i))"

text \<open>
  \<open>fmt.Sprintf(format, i)\<close> with one integer operand, for the formats of the program:
  text with one \<open>%d\<close> and no other \<open>%\<close>. The operand replaces the first \<open>%d\<close>; a
  format without one ends in the \<open>%!(EXTRA int=...)\<close> note of the package.
\<close>

fun Sprintf_int :: "string \<Rightarrow> int \<Rightarrow> string" where
  "Sprintf_int [] i = ''%!(EXTRA int='' @ Sprintf_d i @ '')''"
| "Sprintf_int [c] i = c # Sprintf_int [] i"
| "Sprintf_int (c # c' # rest) i =
     (if c = CHR ''%'' \<and> c' = CHR ''d'' then Sprintf_d i @ rest else c # Sprintf_int (c' # rest) i)"

text \<open>The uploaded file of \<open>c.FormFile("file")\<close>; \<open>Open\<close> is what \<open>file.Open()\<close> returns:
  the content, or \<open>None\<close> with its error.\<close>

record FileHeader =
  Filename :: string
  Header_Content_Type :: string
  Size :: int
  Open :: "string option"

text \<open>\<open>os.Create\<close>: an empty file at the path, replacing what was there.\<close>

definition os_Create :: "string \<Rightarrow> world \<Rightarrow> error option \<times> world" where
  "os_Create name w =
     (case next_fault w of
        (Some e, w1) \<Rightarrow> (Some e, w1)
      | (None, w1) \<Rightarrow> (None, w1\<lparr>files := (files w1)(name \<mapsto> [])\<rparr>))"

text \<open>
  \<open>io.Copy(dst, src)\<close>. When \<open>file.Open()\<close> had failed, \<open>src\<close> holds the nil file that
  \<open>os.Open\<close> returned with its error; reading from it fails with \<open>os.ErrInvalid\<close>, so
  the copy returns an error and writes nothing. A copy that fails leaves the file as far
  as it was written, here as it was created.
\<close>

definition io_Copy :: "string \<Rightarrow> string option \<Rightarrow> world \<Rightarrow> error option \<times> world" where
  "io_Copy dst src w =
     (case src of
        None \<Rightarrow> (Some (OtherError ''invalid argument''), w)
      | Some content \<Rightarrow>
          (case next_fault w of
             (Some e, w1) \<Rightarrow> (Some e, w1)
           | (None, w1) \<Rightarrow> (None, w1\<lparr>files := (files w1)(dst \<mapsto> content)\<rparr>)))"

text \<open>The status codes of \<open>net/http\<close>.\<close>

abbreviation StatusOK :: nat where "StatusOK \<equiv> 200"
abbreviation StatusCreated :: nat where "StatusCreated \<equiv> 201"
abbreviation StatusNoContent :: nat where "StatusNoContent \<equiv> 204"
abbreviation StatusBadRequest :: nat where "StatusBadRequest \<equiv> 400"
abbreviation StatusNotFound :: nat where "StatusNotFound \<equiv> 404"
abbreviation StatusConflict :: nat where "StatusConflict \<equiv> 409"
abbreviation StatusInternalServerError :: nat where "StatusInternalServerError \<equiv> 500"

section \<open>The handlers\<close>

text \<open>
  A handler takes what the framework hands it (path parameters, the body, the uploaded
  file) and the world, and returns its answer and the world it leaves.
  The loop \<open>for rows.Next() { ... }\<close> has the same shape in every reading handler:
  scan the row, answer 500 when the scan fails, append otherwise; \<open>f\<close> is what the body
  makes of the scanned row.
\<close>

fun rows_loop :: "('r \<Rightarrow> 'a) \<Rightarrow> 'r list \<Rightarrow> 'a list \<Rightarrow> world \<Rightarrow> (response + 'a list) \<times> world" where
  "rows_loop f [] acc w = (Inr acc, w)"
| "rows_loop f (row # rows) acc w =
     (case rows_StructScan row w of
        (Inl err, w1) \<Rightarrow>
          (Inl (NoContent StatusInternalServerError),
           Errorf ''failed to purse query responce: %v'' w1)
      | (Inr r, w1) \<Rightarrow> rows_loop f rows (acc @ [f r]) w1)"

subsection \<open>getEvent (lines 218-274)\<close>

definition getEvent :: "string \<Rightarrow> world \<Rightarrow> response \<times> world" where
  "getEvent eventID w0 =
     (case db_Get_event eventID w0 of
        (Inl err, w1) \<Rightarrow>
          (if err = ErrNoRows then (String StatusNotFound ''not found: event'', w1)
           else (NoContent StatusInternalServerError, Errorf ''db error: %v'' w1))
      | (Inr event, w1) \<Rightarrow>
          (case db_Queryx_persons_of_event eventID w1 of
             (Inl err, w2) \<Rightarrow>
               (NoContent StatusInternalServerError, Errorf ''failed to query: %v'' w2)
           | (Inr rows, w2) \<Rightarrow>
               (case rows_loop (\<lambda>person. person) rows [] w2 of
                  (Inl r, w3) \<Rightarrow> (r, w3)
                | (Inr personlist, w3) \<Rightarrow>
                    (case db_Queryx_images_of_event eventID w3 of
                       (Inl err, w4) \<Rightarrow>
                         (NoContent StatusInternalServerError, Errorf ''failed to query: %v'' w4)
                     | (Inr rows', w4) \<Rightarrow>
                         (case rows_loop
                                 (\<lambda>image'. \<lparr>ImagePath = Sprintf_int ''/images/%d.png'' (ImageId image'),
                                             Image = image'\<rparr>) rows' [] w4 of
                            (Inl r, w5) \<Rightarrow> (r, w5)
                          | (Inr imageAndPathlist, w5) \<Rightarrow>
                              (JSON StatusOK (EventDatailJSON
                                 \<lparr>Event = event, Persons = personlist,
                                  ImageAndPaths = imageAndPathlist\<rparr>), w5))))))"

subsection \<open>postEvent (lines 278-322)\<close>

text \<open>The error of \<open>c.Bind\<close> is dropped: the branch that would handle it is empty.\<close>

definition postEvent :: "NewEvent body \<Rightarrow> world \<Rightarrow> response \<times> world" where
  "postEvent body w0 =
     (let (event, err) = c_Bind body zero_NewEvent;
          title = NewEvent.Title event;
          description = NewEvent.Description event;
          eventDate = NewEvent.EventDate event;
          w1 = Errorf ''info: %v'' w0
      in case db_Beginx w1 of
           (Some err, w2) \<Rightarrow> (NoContent StatusInternalServerError, Errorf ''db error: %v'' w2)
         | (None, w2) \<Rightarrow> defer_Rollback
             (case tx_Exec (InsertEvent title description eventDate) w2 of
                (Some err, w3) \<Rightarrow>
                  (if is_duplicate_entry err then (String StatusConflict ''duplicated: event'', w3)
                   else (NoContent StatusInternalServerError, Errorf ''db error: %v'' w3))
              | (None, w3) \<Rightarrow>
                  (case tx_Get_LAST_INSERT_ID w3 of
                     (Inl err, w4) \<Rightarrow>
                       (NoContent StatusInternalServerError, Errorf ''db error: %v'' w4)
                   | (Inr id', w4) \<Rightarrow>
                       (case tx_Commit w4 of
                          (Some err, w5) \<Rightarrow>
                            (NoContent StatusInternalServerError, Errorf ''db error: %v'' w5)
                        | (None, w5) \<Rightarrow> (JSON StatusCreated (IdMap ''EventID'' id'), w5)))))"

subsection \<open>deleteEvent (lines 326-346)\<close>

definition deleteEvent :: "string \<Rightarrow> world \<Rightarrow> response \<times> world" where
  "deleteEvent eventID w0 =
     (case db_Beginx w0 of
        (Some err, w1) \<Rightarrow> (NoContent StatusInternalServerError, Errorf ''db error: %v'' w1)
      | (None, w1) \<Rightarrow> defer_Rollback
          (case tx_Exec (DeleteEvent eventID) w1 of
             (Some err, w2) \<Rightarrow> (NoContent StatusInternalServerError, Errorf ''db error: %v'' w2)
           | (None, w2) \<Rightarrow>
               (case tx_Commit w2 of
                  (Some err, w3) \<Rightarrow>
                    (NoContent StatusInternalServerError, Errorf ''db error: %v'' w3)
                | (None, w3) \<Rightarrow> (NoContent StatusNoContent, w3))))"

subsection \<open>getPerson (lines 377-390)\<close>

definition getPerson :: "string \<Rightarrow> world \<Rightarrow> response \<times> world" where
  "getPerson personID w0 =
     (case db_Get_person personID w0 of
        (Inl err, w1) \<Rightarrow>
          (if err = ErrNoRows then (String StatusNotFound ''not found: person'', w1)
           else (NoContent StatusInternalServerError, Errorf ''db error: %v'' w1))
      | (Inr person, w1) \<Rightarrow> (JSON StatusOK (PersonJSON person), w1))"

subsection \<open>postPerson (lines 393-439)\<close>

definition postPerson :: "Person body \<Rightarrow> world \<Rightarrow> response \<times> world" where
  "postPerson body w0 =
     (let (person, err) = c_Bind body zero_Person;
          w1 = (case err of Some e \<Rightarrow> Errorf ''Bind error: %v'' w0 | None \<Rightarrow> w0);
          firstname = FirstName person;
          lastname = LastName person;
          w2 = Errorf ''info: [%v] [%v] [%v]'' w1
      in case db_Beginx w2 of
           (Some err, w3) \<Rightarrow> (NoContent StatusInternalServerError, Errorf ''db error: %v'' w3)
         | (None, w3) \<Rightarrow> defer_Rollback
             (case tx_Exec (InsertPerson firstname lastname) w3 of
                (Some err, w4) \<Rightarrow>
                  (if is_duplicate_entry err then (String StatusConflict ''duplicated: person'', w4)
                   else (NoContent StatusInternalServerError, Errorf ''db error: %v'' w4))
              | (None, w4) \<Rightarrow>
                  (case tx_Get_LAST_INSERT_ID w4 of
                     (Inl err, w5) \<Rightarrow>
                       (NoContent StatusInternalServerError, Errorf ''db error: %v'' w5)
                   | (Inr id', w5) \<Rightarrow>
                       (case tx_Commit w5 of
                          (Some err, w6) \<Rightarrow>
                            (NoContent StatusInternalServerError, Errorf ''db error: %v'' w6)
                        | (None, w6) \<Rightarrow> (JSON StatusCreated (IdMap ''PersonID'' id'), w6)))))"

subsection \<open>deletePerson (lines 442-462)\<close>

definition deletePerson :: "string \<Rightarrow> world \<Rightarrow> response \<times> world" where
  "deletePerson personID w0 =
     (case db_Beginx w0 of
        (Some err, w1) \<Rightarrow> (NoContent StatusInternalServerError, Errorf ''db error: %v'' w1)
      | (None, w1) \<Rightarrow> defer_Rollback
          (case tx_Exec (DeletePerson personID) w1 of
             (Some err, w2) \<Rightarrow> (NoContent StatusInternalServerError, Errorf ''db error: %v'' w2)
           | (None, w2) \<Rightarrow>
               (case tx_Commit w2 of
                  (Some err, w3) \<Rightarrow>
                    (NoContent StatusInternalServerError, Errorf ''db error: %v'' w3)
                | (None, w3) \<Rightarrow> (NoContent StatusNoContent, w3))))"

subsection \<open>getImage (lines 496-513)\<close>

definition getImage :: "string \<Rightarrow> world \<Rightarrow> response \<times> world" where
  "getImage imageID w0 =
     (case db_Get_image imageID w0 of
        (Inl err, w1) \<Rightarrow>
          (if err = ErrNoRows then (String StatusNotFound ''not found: image'', w1)
           else (NoContent StatusInternalServerError, Errorf ''db error: %v'' w1))
      | (Inr image', w1) \<Rightarrow>
          (JSON StatusOK (ImageAndPathJSON
             \<lparr>ImagePath = Sprintf_int ''/images/%d.png'' (ImageId image'), Image = image'\<rparr>), w1))"

subsection \<open>uploadImage (lines 515-576)\<close>

text \<open>
  \<open>form\<close> is what \<open>c.FormFile("file")\<close> returns: the file's header, or \<open>None\<close> with
  its error. The error of \<open>file.Open()\<close> is overwritten by the next assignment to
  \<open>err\<close> before anything reads it.
\<close>

definition uploadImage :: "FileHeader option \<Rightarrow> world \<Rightarrow> response \<times> world" where
  "uploadImage form w0 =
     (case form of
        None \<Rightarrow> (String StatusBadRequest ''file missing'', w0)
      | Some file \<Rightarrow>
          (let image_name = Filename file;
               mime_type = Header_Content_Type file;
               size = Size file
           in if size > 1000000 then (String StatusBadRequest ''file exceed 1MByte'', w0)
              else
                (let src = Open file
                 in case db_Beginx w0 of
                      (Some err, w1) \<Rightarrow>
                        (NoContent StatusInternalServerError, Errorf ''db error: %v'' w1)
                    | (None, w1) \<Rightarrow> defer_Rollback
                        (case tx_Exec (InsertImage image_name mime_type) w1 of
                           (Some err, w2) \<Rightarrow>
                             (if is_duplicate_entry err
                              then (String StatusConflict ''duplicated: image'', w2)
                              else (NoContent StatusInternalServerError, Errorf ''db error: %v'' w2))
                         | (None, w2) \<Rightarrow>
                             (case tx_Get_LAST_INSERT_ID w2 of
                                (Inl err, w3) \<Rightarrow>
                                  (NoContent StatusInternalServerError, Errorf ''db error: %v'' w3)
                              | (Inr image_id, w3) \<Rightarrow>
                                  (let dst_file_name = imagesPath @ Sprintf_int ''/%d.png'' image_id
                                   in case os_Create dst_file_name w3 of
                                        (Some err, w4) \<Rightarrow>
                                          (NoContent StatusInternalServerError,
                                           Errorf ''cant open file: %v'' w4)
                                      | (None, w4) \<Rightarrow>
                                          (case io_Copy dst_file_name src w4 of
                                             (Some err, w5) \<Rightarrow>
                                               (NoContent StatusInternalServerError,
                                                Errorf ''cant save file: %v'' w5)
                                           | (None, w5) \<Rightarrow>
                                               (case tx_Commit w5 of
                                                  (Some err, w6) \<Rightarrow>
                                                    (NoContent StatusInternalServerError,
                                                     Errorf ''db error: %v'' w6)
                                                | (None, w6) \<Rightarrow>
                                                    (JSON StatusCreated (IdMap ''ImageID'' image_id),
                                                     w6)))))))))"

subsection \<open>deleteImage (lines 579-599)\<close>

definition deleteImage :: "string \<Rightarrow> world \<Rightarrow> response \<times> world" where
  "deleteImage imageID w0 =
     (case db_Beginx w0 of
        (Some err, w1) \<Rightarrow> (NoContent StatusInternalServerError, Errorf ''db error: %v'' w1)
      | (None, w1) \<Rightarrow> defer_Rollback
          (case tx_Exec (DeleteImage imageID) w1 of
             (Some err, w2) \<Rightarrow> (NoContent StatusInternalServerError, Errorf ''db error: %v'' w2)
           | (None, w2) \<Rightarrow>
               (case tx_Commit w2 of
                  (Some err, w3) \<Rightarrow>
                    (NoContent StatusInternalServerError, Errorf ''db error: %v'' w3)
                | (None, w3) \<Rightarrow> (NoContent StatusNoContent, w3))))"

subsection \<open>bindEventPersons (lines 603-640) and bindEventImages (lines 644-681)\<close>

text \<open>
  The loop over the decoded list: the first insert that fails ends the handler with its
  answer (\<open>Some\<close>); \<open>None\<close> when every insert went through.
\<close>

fun bindEventPersons_loop :: "string \<Rightarrow> Person list \<Rightarrow> world \<Rightarrow> response option \<times> world" where
  "bindEventPersons_loop eventID [] w = (None, w)"
| "bindEventPersons_loop eventID (person # rest) w =
     (let personID = PersonId person
      in case tx_Exec (InsertEventPerson eventID personID) w of
           (Some err, w1) \<Rightarrow>
             (if is_duplicate_entry err then (Some (String StatusConflict ''duplicated: bind''), w1)
              else (Some (NoContent StatusInternalServerError), Errorf ''db error: %v'' w1))
         | (None, w1) \<Rightarrow> bindEventPersons_loop eventID rest w1)"

definition bindEventPersons :: "string \<Rightarrow> Person list body \<Rightarrow> world \<Rightarrow> response \<times> world" where
  "bindEventPersons eventID body w0 =
     (let w1 = Errorf ''info: enevt_id %v'' w0;
          (personList, err) = c_Bind body [];
          w2 = (case err of Some e \<Rightarrow> Errorf ''Bind error: %v'' w1 | None \<Rightarrow> w1)
      in case db_Beginx w2 of
           (Some err, w3) \<Rightarrow> (NoContent StatusInternalServerError, Errorf ''db error: %v'' w3)
         | (None, w3) \<Rightarrow> defer_Rollback
             (case bindEventPersons_loop eventID personList w3 of
                (Some r, w4) \<Rightarrow> (r, w4)
              | (None, w4) \<Rightarrow>
                  (case tx_Commit w4 of
                     (Some err, w5) \<Rightarrow>
                       (NoContent StatusInternalServerError, Errorf ''db error: %v'' w5)
                   | (None, w5) \<Rightarrow> (NoContent StatusNoContent, w5))))"

fun bindEventImages_loop :: "string \<Rightarrow> Image list \<Rightarrow> world \<Rightarrow> response option \<times> world" where
  "bindEventImages_loop eventID [] w = (None, w)"
| "bindEventImages_loop eventID (image' # rest) w =
     (let imageID = ImageId image'
      in case tx_Exec (InsertEventImage eventID imageID) w of
           (Some err, w1) \<Rightarrow>
             (if is_duplicate_entry err then (Some (String StatusConflict ''duplicated: bind''), w1)
              else (Some (NoContent StatusInternalServerError), Errorf ''db error: %v'' w1))
         | (None, w1) \<Rightarrow> bindEventImages_loop eventID rest w1)"

definition bindEventImages :: "string \<Rightarrow> Image list body \<Rightarrow> world \<Rightarrow> response \<times> world" where
  "bindEventImages eventID body w0 =
     (let w1 = Errorf ''info: enevt_id %v'' w0;
          (imageList, err) = c_Bind body [];
          w2 = (case err of Some e \<Rightarrow> Errorf ''Bind error: %v'' w1 | None \<Rightarrow> w1)
      in case db_Beginx w2 of
           (Some err, w3) \<Rightarrow> (NoContent StatusInternalServerError, Errorf ''db error: %v'' w3)
         | (None, w3) \<Rightarrow> defer_Rollback
             (case bindEventImages_loop eventID imageList w3 of
                (Some r, w4) \<Rightarrow> (r, w4)
              | (None, w4) \<Rightarrow>
                  (case tx_Commit w4 of
                     (Some err, w5) \<Rightarrow>
                       (NoContent StatusInternalServerError, Errorf ''db error: %v'' w5)
                   | (None, w5) \<Rightarrow> (NoContent StatusNoContent, w5))))"

subsection \<open>The list handlers (lines 188-214, 349-374, 465-494)\<close>

text \<open>
  The list handlers call \<open>fmt.Sprintf(" limit " + limit)\<close>: the text from the request is
  the format, and there is no operand. \<open>Sprintf\<close> follows \<open>doPrintf\<close> of Go's \<open>fmt\<close>
  package for an empty operand list. Text up to a \<open>%\<close> is copied. After a \<open>%\<close> come
  flags, an argument index in brackets, a width, a precision, another index, and the
  verb; what is written is
  \<^item> \<open>%\<close> for the verb \<open>%\<close>,
  \<^item> \<open>%!(NOVERB)\<close> when the format ends before a verb,
  \<^item> \<open>%!v(MISSING)\<close> for any other verb \<open>v\<close>, as there is no operand for it,
  \<^item> \<open>%!v(BADINDEX)\<close> when an argument index was met (no operand has that index),
  \<^item> \<open>%!(BADWIDTH)\<close> and \<open>%!(BADPREC)\<close> first, for a width or precision \<open>*\<close>.
  Strings are byte sequences; the verb is one UTF-8 encoded rune, and bytes that are no
  valid encoding are written as the replacement rune.
\<close>

definition is_flag :: "char \<Rightarrow> bool" where
  "is_flag c = (c \<in> set ''#0+- '')"

definition is_digit :: "char \<Rightarrow> bool" where
  "is_digit c = (48 \<le> (of_char c :: nat) \<and> (of_char c :: nat) \<le> 57)"

definition tooLarge :: "int \<Rightarrow> bool" where
  "tooLarge x = (x > 1000000 \<or> x < - 1000000)"

text \<open>\<open>parsenum\<close> on the text up to its \<open>end\<close>: whether a number was read, and the text
  left; a number that grows too large gives up at the end.\<close>

fun parsenum_loop :: "int \<Rightarrow> bool \<Rightarrow> string \<Rightarrow> bool \<times> string" where
  "parsenum_loop num isnum [] = (isnum, [])"
| "parsenum_loop num isnum (c # cs) =
     (if is_digit c
      then (if tooLarge num then (False, [])
            else parsenum_loop (num * 10 + (of_char c - 48)) True cs)
      else (isnum, c # cs))"

definition parsenum :: "string \<Rightarrow> bool \<times> string" where
  "parsenum s = parsenum_loop 0 False s"

text \<open>\<open>parseArgNumber\<close> on a text that starts with \<open>[\<close>: how many bytes to skip, and
  whether a well-formed index stood between the brackets.\<close>

definition parseArgNumber :: "string \<Rightarrow> nat \<times> bool" where
  "parseArgNumber s =
     (if length s < 3 then (1, False)
      else (let inner = takeWhile (\<lambda>c. c \<noteq> CHR '']'') (tl s)
            in if length inner = length (tl s) then (1, False)
               else (let (isnum, rest) = parsenum inner
                     in (length inner + 2, isnum \<and> rest = []))))"

text \<open>\<open>argNumber\<close> with no operands: the text left, whether an index was found, and
  whether a bracket was met (which clears \<open>goodArgNum\<close>, no index being in range).\<close>

definition argNumber :: "string \<Rightarrow> string \<times> bool \<times> bool" where
  "argNumber s =
     (case s of
        [] \<Rightarrow> (s, False, False)
      | c # cs \<Rightarrow>
          (if c = CHR ''[''
           then (let (wid, ok) = parseArgNumber s in (drop wid s, ok, True))
           else (s, False, False)))"

text \<open>\<open>utf8.DecodeRuneInString\<close> followed by \<open>writeRune\<close>: the bytes written for the
  rune at the head of a non-empty text, and the text after it.\<close>

definition continuation :: "nat \<Rightarrow> nat \<Rightarrow> string \<Rightarrow> nat \<Rightarrow> bool" where
  "continuation lo hi s n =
     (n < length s \<and> lo \<le> (of_char (s ! n) :: nat) \<and> (of_char (s ! n) :: nat) \<le> hi)"

definition rune_size :: "string \<Rightarrow> nat option" where
  "rune_size s =
     (let s0 = (of_char (hd s) :: nat)
      in if s0 < 128 then Some 1
         else if s0 < 194 \<or> 244 < s0 then None
         else if s0 < 224 then (if continuation 128 191 s 1 then Some 2 else None)
         else if s0 < 240 then
           (if length s \<ge> 3
               \<and> continuation (if s0 = 224 then 160 else 128) (if s0 = 237 then 159 else 191) s 1
               \<and> continuation 128 191 s 2
            then Some 3 else None)
         else
           (if length s \<ge> 4
               \<and> continuation (if s0 = 240 then 144 else 128) (if s0 = 244 then 143 else 191) s 1
               \<and> continuation 128 191 s 2 \<and> continuation 128 191 s 3
            then Some 4 else None))"

definition read_verb :: "string \<Rightarrow> string \<times> string" where
  "read_verb s =
     (case rune_size s of
        None \<Rightarrow> ([char_of (239 :: nat), char_of (191 :: nat), char_of (189 :: nat)], tl s)
      | Some n \<Rightarrow> (take n s, drop n s))"

text \<open>
  The parts of a directive. Each takes the text at its place and whether the item before
  it was an argument index (\<open>afterIndex\<close>), and gives what is written, the text left and
  the new \<open>afterIndex\<close>; the parts that look for an index also say whether a bracket was
  met.
\<close>

definition width :: "string \<Rightarrow> bool \<Rightarrow> string \<times> string \<times> bool" where
  "width s afterIndex =
     (case s of
        [] \<Rightarrow> ([], s, afterIndex)
      | c # cs \<Rightarrow>
          (if c = CHR ''*'' then (''%!(BADWIDTH)'', cs, False)
           else ([], snd (parsenum s), afterIndex)))"

definition precision :: "string \<Rightarrow> bool \<Rightarrow> string \<times> string \<times> bool \<times> bool" where
  "precision s afterIndex =
     (case s of
        [] \<Rightarrow> ([], s, afterIndex, False)
      | c # cs \<Rightarrow>
          (if c = CHR ''.''
           then (let (s4, afterIndex4, bracket4) = argNumber cs
                 in case s4 of
                      [] \<Rightarrow> ([], s4, afterIndex4, bracket4)
                    | c' # cs' \<Rightarrow>
                        (if c' = CHR ''*'' then (''%!(BADPREC)'', cs', False, bracket4)
                         else ([], snd (parsenum s4), afterIndex4, bracket4)))
           else ([], s, afterIndex, False)))"

definition verb_index :: "string \<Rightarrow> bool \<Rightarrow> string \<times> bool" where
  "verb_index s afterIndex =
     (if afterIndex then (s, False)
      else (let (s', found, bracket) = argNumber s in (s', bracket)))"

text \<open>One directive: the text after a \<open>%\<close> gives what is written and the text left.\<close>

definition directive :: "string \<Rightarrow> string \<times> string" where
  "directive s =
     (let s1 = dropWhile is_flag s;
          (s2, afterIndex2, bracket2) = argNumber s1;
          (out3, s3, afterIndex3) = width s2 afterIndex2;
          (out5, s5, afterIndex5, bracket5) = precision s3 afterIndex3;
          (s6, bracket6) = verb_index s5 afterIndex5;
          goodArgNum = (\<not> bracket2 \<and> \<not> bracket5 \<and> \<not> bracket6)
      in if s6 = [] then (out3 @ out5 @ ''%!(NOVERB)'', [])
         else (let (verb, rest) = read_verb s6
               in if verb = ''%'' then (out3 @ out5 @ ''%'', rest)
                  else if \<not> goodArgNum then (out3 @ out5 @ ''%!'' @ verb @ ''(BADINDEX)'', rest)
                  else (out3 @ out5 @ ''%!'' @ verb @ ''(MISSING)'', rest)))"

lemma parsenum_loop_length: "length (snd (parsenum_loop num isnum s)) \<le> length s"
  by (induction s arbitrary: num isnum) (auto simp: le_SucI)

lemma parsenum_length: "length (snd (parsenum s)) \<le> length s"
  by (simp add: parsenum_def parsenum_loop_length)

lemma argNumber_length: "argNumber s = (s', found, bracket) \<Longrightarrow> length s' \<le> length s"
  by (auto simp: argNumber_def split: list.splits prod.splits if_splits)

lemma width_length: "width s a = (out, s', a') \<Longrightarrow> length s' \<le> length s"
  using parsenum_length[of s] by (auto simp: width_def split: list.splits if_splits)

lemma precision_length: "precision s a = (out, s', a', b') \<Longrightarrow> length s' \<le> length s"
proof (cases s)
  case Nil
  then show "precision s a = (out, s', a', b') \<Longrightarrow> ?thesis" by (simp add: precision_def)
next
  case (Cons c cs)
  assume p: "precision s a = (out, s', a', b')"
  obtain s4 a4 b4 where A4: "argNumber cs = (s4, a4, b4)" by (cases "argNumber cs") auto
  from argNumber_length[OF A4] parsenum_length[of s4] p Cons A4 show ?thesis
    by (auto simp: precision_def split: list.splits if_splits)
qed

lemma verb_index_length: "verb_index s a = (s', b') \<Longrightarrow> length s' \<le> length s"
  by (auto simp: verb_index_def split: if_splits prod.splits dest: argNumber_length)

lemma read_verb_length: "read_verb s = (verb, rest) \<Longrightarrow> length rest \<le> length s"
  by (auto simp: read_verb_def split: option.splits)

lemma directive_length: "length (snd (directive s)) \<le> length s"
proof -
  have "length (dropWhile is_flag s) \<le> length s"
    by (rule length_dropWhile_le)
  then show ?thesis
    unfolding directive_def Let_def
    by (auto split: prod.splits
          dest!: argNumber_length width_length precision_length verb_index_length
            read_verb_length)
qed

function Sprintf :: "string \<Rightarrow> string" where
  "Sprintf [] = []"
| "Sprintf (c # cs) =
     (if c = CHR ''%'' then fst (directive cs) @ Sprintf (snd (directive cs))
      else c # Sprintf cs)"
  by pat_completeness auto
termination
  by (relation "measure length") (auto simp: directive_length less_Suc_eq_le)

text \<open>
  The store's reading of the query text is the parameter \<open>sql\<close>. \<open>c.QueryParam\<close> gives
  the empty text for a parameter the request does not have.
\<close>

definition getEventList :: "(string \<Rightarrow> database \<Rightarrow> Event list) \<Rightarrow> string \<Rightarrow> string \<Rightarrow> world \<Rightarrow> response \<times> world" where
  "getEventList sql limit offset w0 =
     (let limit' = (if limit \<noteq> [] then Sprintf ('' limit '' @ limit) else limit);
          offset' = (if offset \<noteq> [] then Sprintf ('' offset '' @ offset) else offset)
      in case db_Queryx_text sql
                (''select event_id, title, description, event_date from events'' @ limit' @ offset') w0 of
           (Inl err, w1) \<Rightarrow>
             (NoContent StatusInternalServerError, Errorf ''failed to query: %v'' w1)
         | (Inr rows, w1) \<Rightarrow>
             (case rows_loop (\<lambda>event. event) rows [] w1 of
                (Inl r, w2) \<Rightarrow> (r, w2)
              | (Inr eventlist, w2) \<Rightarrow> (JSON StatusOK (EventlistJSON eventlist), w2)))"

definition getPersonList :: "(string \<Rightarrow> database \<Rightarrow> Person list) \<Rightarrow> string \<Rightarrow> string \<Rightarrow> world \<Rightarrow> response \<times> world" where
  "getPersonList sql limit offset w0 =
     (let limit' = (if limit \<noteq> [] then Sprintf ('' limit '' @ limit) else limit);
          offset' = (if offset \<noteq> [] then Sprintf ('' offset '' @ offset) else offset)
      in case db_Queryx_text sql (''select * from persons'' @ limit' @ offset') w0 of
           (Inl err, w1) \<Rightarrow>
             (NoContent StatusInternalServerError, Errorf ''failed to query: %v'' w1)
         | (Inr rows, w1) \<Rightarrow>
             (case rows_loop (\<lambda>person. person) rows [] w1 of
                (Inl r, w2) \<Rightarrow> (r, w2)
              | (Inr personlist, w2) \<Rightarrow> (JSON StatusOK (PersonlistJSON personlist), w2)))"

definition getImageList :: "(string \<Rightarrow> database \<Rightarrow> Image list) \<Rightarrow> string \<Rightarrow> string \<Rightarrow> world \<Rightarrow> response \<times> world" where
  "getImageList sql limit offset w0 =
     (let limit' = (if limit \<noteq> [] then Sprintf ('' limit '' @ limit) else limit);
          offset' = (if offset \<noteq> [] then Sprintf ('' offset '' @ offset) else offset)
      in case db_Queryx_text sql (''select * from images'' @ limit' @ offset') w0 of
           (Inl err, w1) \<Rightarrow>
             (NoContent StatusInternalServerError, Errorf ''failed to query: %v'' w1)
         | (Inr rows, w1) \<Rightarrow>
             (case rows_loop
                     (\<lambda>image'. \<lparr>ImagePath = Sprintf_int ''/images/%d.png'' (ImageId image'),
                                 Image = image'\<rparr>) rows [] w1 of
                (Inl r, w2) \<Rightarrow> (r, w2)
              | (Inr imageAndPathList, w2) \<Rightarrow>
                  (JSON StatusOK (ImageAndPathlistJSON imageAndPathList), w2)))"

section \<open>Startup (lines 81-156)\<close>

record MySQLConnectionEnv =
  Host :: string
  Port :: string
  User :: string
  DBName :: string
  Password :: string

text \<open>
  What the process finds when it starts: the environment variables (\<open>os.Getenv\<close>, the
  empty text for a variable that is not set), whether the store can be reached, what the
  driver makes of a data source name (\<open>ParseDSN\<close>, an error for a text it cannot read),
  and what \<open>e.Start\<close> returns (\<open>None\<close> while the server keeps serving).
\<close>

record startup =
  os_Getenv :: "string \<Rightarrow> string"
  store_reachable :: bool
  ParseDSN :: "string \<Rightarrow> error option"
  e_Start :: "error option"

text \<open>
  \<open>sqlx.Open("mysql", dsn)\<close> is \<open>sql.Open\<close> of \<open>database/sql\<close>: it has the driver read
  the data source name and returns the pool. It opens no connection (a connection is
  dialled when the pool is first used, or by \<open>Ping\<close>, which \<open>main\<close> does not call), so
  whether the store can be reached has no part in its result.
\<close>

definition sqlx_Open :: "startup \<Rightarrow> string \<Rightarrow> error option" where
  "sqlx_Open env dsn = ParseDSN env dsn"

definition getEnv :: "startup \<Rightarrow> string \<Rightarrow> string \<Rightarrow> string" where
  "getEnv env key defaultValue =
     (let val = os_Getenv env key in if val \<noteq> [] then val else defaultValue)"

definition NewMySQLConnectionEnv :: "startup \<Rightarrow> MySQLConnectionEnv" where
  "NewMySQLConnectionEnv env =
     \<lparr>Host = getEnv env ''MYSQL_HOST'' ''127.0.0.1'',
      Port = getEnv env ''MYSQL_PORT'' ''3306'',
      User = getEnv env ''MYSQL_USER'' ''poc_webapp'',
      DBName = getEnv env ''MYSQL_DBNAME'' ''poc_webapp'',
      Password = getEnv env ''MYSQL_PASS'' ''poc_webapp''\<rparr>"

definition dsn_of :: "MySQLConnectionEnv \<Rightarrow> string" where
  "dsn_of mc = User mc @ '':'' @ Password mc @ ''@tcp('' @ Host mc @ '':'' @ Port mc @ '')/''
     @ DBName mc @ ''?parseTime=true&loc=Asia%2FTokyo''"

definition ConnectDB :: "startup \<Rightarrow> MySQLConnectionEnv \<Rightarrow> error option" where
  "ConnectDB env mc = sqlx_Open env (dsn_of mc)"

text \<open>
  What \<open>main\<close> does after the routes are registered, as the sequence of its steps and
  the way it ends. \<open>e.Logger.Fatalf\<close> and \<open>e.Logger.Fatal\<close> log and exit the process;
  \<open>Serving\<close> is the server that keeps running because \<open>e.Start\<close> does not return.
\<close>

datatype step = Connect string | SetMaxOpenConns nat | Start string

datatype ending = Fatalf string error | Fatal error | Serving

definition main :: "startup \<Rightarrow> step list \<times> ending" where
  "main env =
     (let mySQLConnectionData = NewMySQLConnectionEnv env
      in case ConnectDB env mySQLConnectionData of
           Some err \<Rightarrow>
             ([Connect (dsn_of mySQLConnectionData)], Fatalf ''failed to connect db: %v'' err)
         | None \<Rightarrow>
             (case e_Start env of
                Some err \<Rightarrow>
                  ([Connect (dsn_of mySQLConnectionData), SetMaxOpenConns 10, Start '':1323''],
                   Fatal err)
              | None \<Rightarrow>
                  ([Connect (dsn_of mySQLConnectionData), SetMaxOpenConns 10, Start '':1323''],
                   Serving)))"

section \<open>Schedules of answers\<close>

text \<open>
  \<open>answer fs n\<close> is entry \<open>n\<close> of the list of answers (counted from 0), success
  beyond its end; \<open>fault_at n w\<close> is the answer the \<open>n\<close>-th coming call will get, and
  \<open>quiet n w\<close> says that the next \<open>n\<close> calls succeed.
\<close>

definition answer :: "error option list \<Rightarrow> nat \<Rightarrow> error option" where
  "answer fs n = (if n < length fs then fs ! n else None)"

definition fault_at :: "nat \<Rightarrow> world \<Rightarrow> error option" where
  "fault_at n w = answer (faults w) n"

definition quiet :: "nat \<Rightarrow> world \<Rightarrow> bool" where
  "quiet n w = list_all (\<lambda>f. f = None) (take n (faults w))"

text \<open>The calls that reached the store between the worlds \<open>w\<close> and \<open>w'\<close>.\<close>

definition new_calls :: "world \<Rightarrow> world \<Rightarrow> call list" where
  "new_calls w w' = drop (length (calls w)) (calls w')"

section \<open>Example worlds\<close>

text \<open>
  A store with no rows that reads a path parameter as a decimal number, and is about to
  give the answers \<open>fs\<close>.
\<close>

definition decimal_value :: "string \<Rightarrow> int" where
  "decimal_value s = foldl (\<lambda>n c. 10 * n + (of_char c - 48)) 0 s"

definition empty_db :: database where
  "empty_db = \<lparr>events = [], persons = [], images = [],
     event_person_tagging = [], event_image_tagging = []\<rparr>"

definition fresh_world :: "error option list \<Rightarrow> world" where
  "fresh_world fs =
     \<lparr>db = empty_db, tx = None, last_insert_id = 0,
      next_event_id = 1, next_person_id = 1, next_image_id = 1,
      coerce = decimal_value, faults = fs, calls = [], files = Map.empty, logs = []\<rparr>"

text \<open>A store whose counters have reached a value beyond the range of a 64-bit
  signed integer (\<open>LAST_INSERT_ID()\<close> is an unsigned 64-bit value).\<close>

definition exhausted_ids :: world where
  "exhausted_ids = (fresh_world [])\<lparr>next_event_id := 2 ^ 63, next_person_id := 2 ^ 63,
     next_image_id := 2 ^ 63\<rparr>"

definition two_persons :: "Person list" where
  "two_persons = [\<lparr>PersonId = 1, FirstName = [], LastName = []\<rparr>,
                  \<lparr>PersonId = 2, FirstName = [], LastName = []\<rparr>]"

definition two_images :: "Image list" where
  "two_images = [\<lparr>ImageId = 5, ImageName = [], ContentType = []\<rparr>,
                 \<lparr>ImageId = 6, ImageName = [], ContentType = []\<rparr>]"

definition small_upload :: "string option \<Rightarrow> FileHeader" where
  "small_upload src = \<lparr>Filename = ''cat.jpg'', Header_Content_Type = ''image/jpeg'', Size = 3, Open = src\<rparr>"

definition large_upload :: FileHeader where
  "large_upload = \<lparr>Filename = ''big.png'', Header_Content_Type = ''image/png'', Size = 2000000,
     Open = Some []\<rparr>"

definition ada :: Person where
  "ada = \<lparr>PersonId = 0, FirstName = ''Ada'', LastName = ''Lovelace''\<rparr>"

definition party :: NewEvent where
  "party = \<lparr>NewEvent.Title = ''Party'', Description = ''At home'', EventDate = 1700000000\<rparr>"

definition gallery_db :: database where
  "gallery_db =
     \<lparr>events = [\<lparr>EventID = 7, AccountID = 1, Title = ''Party'', Description = ''At home'',
                  EventDate = 1700000000\<rparr>,
                \<lparr>EventID = 8, AccountID = 1, Title = ''Trip'', Description = [], EventDate = 0\<rparr>],
      persons = [\<lparr>PersonId = 1, FirstName = ''Ada'', LastName = ''Lovelace''\<rparr>],
      images = [\<lparr>ImageId = 12, ImageName = ''cat.jpg'', ContentType = ''image/jpeg''\<rparr>],
      event_person_tagging = [(7, 1)],
      event_image_tagging = [(7, 12)]\<rparr>"

definition gallery_world :: world where
  "gallery_world = (fresh_world [])\<lparr>db := gallery_db\<rparr>"

definition party_detail :: EventDatail where
  "party_detail =
     \<lparr>Event = \<lparr>EventID = 7, AccountID = 1, Title = ''Party'', Description = ''At home'',
                EventDate = 1700000000\<rparr>,
      Persons = [\<lparr>PersonId = 1, FirstName = ''Ada'', LastName = ''Lovelace''\<rparr>],
      ImageAndPaths = [\<lparr>ImagePath = ''/images/12.png'',
         Image = \<lparr>ImageId = 12, ImageName = ''cat.jpg'', ContentType = ''image/jpeg''\<rparr>\<rparr>]\<rparr>"

text \<open>Two startups with no environment variable set and a store that can be reached:
  one where the driver rejects the data source name, one where it accepts it and the
  server cannot listen.\<close>

definition bad_dsn :: startup where
  "bad_dsn = \<lparr>os_Getenv = (\<lambda>key. []), store_reachable = True,
     ParseDSN = (\<lambda>dsn. Some (OtherError ''invalid DSN'')), e_Start = None\<rparr>"

definition port_in_use :: startup where
  "port_in_use = \<lparr>os_Getenv = (\<lambda>key. []), store_reachable = True,
     ParseDSN = (\<lambda>dsn. None),
     e_Start = Some (OtherError ''listen tcp :1323: bind: address already in use'')\<rparr>"

text \<open>A startup with no environment variable set, a data source name the driver can
  read, and a store that cannot be reached.\<close>

definition store_down :: startup where
  "store_down = \<lparr>os_Getenv = (\<lambda>key. []), store_reachable = False,
     ParseDSN = (\<lambda>dsn. None), e_Start = None\<rparr>"

section \<open>The calls of the store, step by step\<close>

lemma next_fault_eq: "next_fault w = (fault_at 0 w, w\<lparr>faults := tl (faults w)\<rparr>)"
  by (cases "faults w") (simp_all add: next_fault_def fault_at_def answer_def)

lemma quiet_0: "quiet 0 w"
  by (simp add: quiet_def)

lemma quiet_tl:
  "faults w' = tl (faults w) \<Longrightarrow> quiet (Suc n) w \<longleftrightarrow> fault_at 0 w = None \<and> quiet n w'"
  by (cases "faults w") (simp_all add: quiet_def fault_at_def answer_def)

lemma quiet_Suc_last: "quiet (Suc n) w \<longleftrightarrow> quiet n w \<and> fault_at n w = None"
  by (auto simp: quiet_def fault_at_def answer_def take_Suc_conv_app_nth)

lemma fault_at_drop: "faults w' = drop n (faults w) \<Longrightarrow> fault_at k w' = fault_at (n + k) w"
  by (auto simp: fault_at_def answer_def)

lemma fault_at_tl: "faults w' = tl (faults w) \<Longrightarrow> fault_at n w' = fault_at (Suc n) w"
  by (cases "faults w") (simp_all add: fault_at_def answer_def)

lemma db_Beginx_eq:
  "db_Beginx w = (case fault_at 0 w of
       Some e \<Rightarrow> (Some e, w\<lparr>calls := calls w @ [Begin], faults := tl (faults w)\<rparr>)
     | None \<Rightarrow> (None, w\<lparr>calls := calls w @ [Begin], faults := tl (faults w), tx := Some (db w)\<rparr>))"
  by (simp add: db_Beginx_def next_fault_eq record_call_def fault_at_def answer_def split: option.splits)

lemma tx_Exec_eq:
  "tx w = Some t \<Longrightarrow> tx_Exec s w = (case fault_at 0 w of
       Some e \<Rightarrow> (Some e, w\<lparr>calls := calls w @ [Exec s], faults := tl (faults w)\<rparr>)
     | None \<Rightarrow> (None, run_stmt s t (w\<lparr>calls := calls w @ [Exec s], faults := tl (faults w)\<rparr>)))"
  by (simp add: tx_Exec_def next_fault_eq record_call_def fault_at_def answer_def split: option.splits)

lemma tx_Commit_eq:
  "tx w = Some t \<Longrightarrow> tx_Commit w = (case fault_at 0 w of
       Some e \<Rightarrow> (Some e, w\<lparr>calls := calls w @ [Commit], faults := tl (faults w), tx := None\<rparr>)
     | None \<Rightarrow> (None, w\<lparr>calls := calls w @ [Commit], faults := tl (faults w), db := t, tx := None\<rparr>))"
  by (simp add: tx_Commit_def next_fault_eq record_call_def fault_at_def answer_def split: option.splits)

lemma tx_Rollback_eq:
  "tx_Rollback w = (if tx w = None then w else w\<lparr>calls := calls w @ [Rollback], tx := None\<rparr>)"
  by (simp add: tx_Rollback_def record_call_def split: option.splits)

lemma persons_loop_inv:
  "tx w = Some t \<Longrightarrow> bindEventPersons_loop eventID ps w = (r, w') \<Longrightarrow>
     db w' = db w \<and> coerce w' = coerce w \<and>
     (case r of
        None \<Rightarrow> tx w' = Some (t\<lparr>event_person_tagging := event_person_tagging t @ map (\<lambda>p. (coerce w eventID, PersonId p)) ps\<rparr>)
      | Some a \<Rightarrow> a \<noteq> NoContent StatusNoContent \<and> tx w' \<noteq> None)"
proof (induction ps arbitrary: w t)
  case Nil
  then show ?case by auto
next
  case (Cons p ps)
  show ?case
  proof (cases "fault_at 0 w")
    case None
    let ?w1 = "run_stmt (InsertEventPerson eventID (PersonId p)) t (w\<lparr>calls := calls w @ [Exec (InsertEventPerson eventID (PersonId p))], faults := tl (faults w)\<rparr>)"
    from Cons.prems None have step: "bindEventPersons_loop eventID ps ?w1 = (r, w')"
      by (simp add: tx_Exec_eq Let_def)
    have "tx ?w1 = Some (t\<lparr>event_person_tagging := event_person_tagging t @ [(coerce w eventID, PersonId p)]\<rparr>)"
      by simp
    from Cons.IH[OF this step] show ?thesis
      by (auto split: option.splits)
  next
    case (Some e)
    with Cons.prems show ?thesis
      by (auto simp: tx_Exec_eq Errorf_def Let_def split: if_splits)
  qed
qed

lemma persons_loop_quiet:
  "tx w = Some t \<Longrightarrow> quiet (length ps) w \<Longrightarrow> bindEventPersons_loop eventID ps w = (r, w') \<Longrightarrow>
     r = None \<and> calls w' = calls w @ map (\<lambda>p. Exec (InsertEventPerson eventID (PersonId p))) ps \<and> faults w' = drop (length ps) (faults w)"
proof (induction ps arbitrary: w t)
  case Nil
  then show ?case by auto
next
  case (Cons p ps)
  let ?w1 = "run_stmt (InsertEventPerson eventID (PersonId p)) t (w\<lparr>calls := calls w @ [Exec (InsertEventPerson eventID (PersonId p))], faults := tl (faults w)\<rparr>)"
  have fw1: "faults ?w1 = tl (faults w)" by simp
  from Cons.prems have q0: "fault_at 0 w = None" and q: "quiet (length ps) ?w1"
    using quiet_tl[OF fw1] by simp_all
  from Cons.prems q0 have step: "bindEventPersons_loop eventID ps ?w1 = (r, w')"
    by (simp add: tx_Exec_eq Let_def)
  have "tx ?w1 = Some (t\<lparr>event_person_tagging := event_person_tagging t @ [(coerce w eventID, PersonId p)]\<rparr>)"
    by simp
  from Cons.IH[OF this q step] show ?case
    by (simp add: drop_Suc)
qed

lemma persons_loop_fault:
  "tx w = Some t \<Longrightarrow> k < length ps \<Longrightarrow> quiet k w \<Longrightarrow> fault_at k w = Some e \<Longrightarrow>
   bindEventPersons_loop eventID ps w = (r, w') \<Longrightarrow>
     r = Some (if is_duplicate_entry e then String StatusConflict ''duplicated: bind''
               else NoContent StatusInternalServerError) \<and>
     calls w' = calls w @ map (\<lambda>p. Exec (InsertEventPerson eventID (PersonId p))) (take (Suc k) ps) \<and> tx w' \<noteq> None"
proof (induction ps arbitrary: w t k)
  case Nil
  then show ?case by simp
next
  case (Cons p ps)
  show ?case
  proof (cases k)
    case 0
    with Cons.prems show ?thesis
      by (auto simp: tx_Exec_eq Errorf_def Let_def)
  next
    case (Suc j)
    let ?w1 = "run_stmt (InsertEventPerson eventID (PersonId p)) t (w\<lparr>calls := calls w @ [Exec (InsertEventPerson eventID (PersonId p))], faults := tl (faults w)\<rparr>)"
    have fw1: "faults ?w1 = tl (faults w)" by simp
    from Cons.prems Suc have q0: "fault_at 0 w = None" and q: "quiet j ?w1"
      and f: "fault_at j ?w1 = Some e" and j: "j < length ps"
      using quiet_tl[OF fw1] fault_at_tl[OF fw1] by simp_all
    from Cons.prems q0 have step: "bindEventPersons_loop eventID ps ?w1 = (r, w')"
      by (simp add: tx_Exec_eq Let_def)
    have "tx ?w1 = Some (t\<lparr>event_person_tagging := event_person_tagging t @ [(coerce w eventID, PersonId p)]\<rparr>)"
      by simp
    from Cons.IH[OF this j q f step] Suc show ?thesis
      by (simp add:)
  qed
qed


lemma Errorf_fields [simp]:
  "db (Errorf f w) = db w" "tx (Errorf f w) = tx w" "faults (Errorf f w) = faults w"
  "calls (Errorf f w) = calls w" "coerce (Errorf f w) = coerce w" "files (Errorf f w) = files w"
  "logs (Errorf f w) = logs w @ [f]"
  by (simp_all add: Errorf_def)

lemma fault_at_Errorf [simp]: "fault_at n (Errorf f w) = fault_at n w"
  by (simp add: fault_at_def answer_def Errorf_def)

lemma quiet_Errorf [simp]: "quiet n (Errorf f w) = quiet n w"
  by (simp add: quiet_def Errorf_def)

lemma bindEventPersons_atomic:
  assumes "bindEventPersons eventID (Decoded ps) w = (r, w')"
  shows "r \<noteq> NoContent StatusNoContent \<and> db w' = db w \<or>
      r = NoContent StatusNoContent \<and>
      db w' = (db w)\<lparr>event_person_tagging := event_person_tagging (db w) @ map (\<lambda>p. (coerce w eventID, PersonId p)) ps\<rparr>"
proof (cases "fault_at 0 w")
  case (Some e)
  with assms show ?thesis
    by (auto simp: bindEventPersons_def db_Beginx_eq Let_def)
next
  case None
  let ?w2 = "Errorf ''info: enevt_id %v'' w"
  let ?w3 = "?w2\<lparr>calls := calls ?w2 @ [Begin], faults := tl (faults ?w2), tx := Some (db ?w2)\<rparr>"
  obtain r4 w4 where loop: "bindEventPersons_loop eventID ps ?w3 = (r4, w4)"
    by (cases "bindEventPersons_loop eventID ps ?w3")
  have t3: "tx ?w3 = Some (db w)" by simp
  note inv = persons_loop_inv[OF t3 loop]
  from assms None loop have res: "(r, w') = defer_Rollback
             (case r4 of Some a \<Rightarrow> (a, w4)
              | None \<Rightarrow>
                  (case tx_Commit w4 of
                     (Some err, w5) \<Rightarrow>
                       (NoContent StatusInternalServerError, Errorf ''db error: %v'' w5)
                   | (None, w5) \<Rightarrow> (NoContent StatusNoContent, w5)))"
    by (simp add: bindEventPersons_def db_Beginx_eq Let_def)
  show ?thesis
  proof (cases r4)
    case (Some a)
    with res inv show ?thesis
      by (auto simp: defer_Rollback_def tx_Rollback_eq)
  next
    case n: None
    with inv have t4: "tx w4 = Some ((db w)\<lparr>event_person_tagging := event_person_tagging (db w) @ map (\<lambda>p. (coerce ?w3 eventID, PersonId p)) ps\<rparr>)"
      by simp
    from res n inv show ?thesis
      by (auto simp: defer_Rollback_def tx_Rollback_eq
            tx_Commit_eq[OF t4] split: option.splits)
  qed
qed

lemma bindEventPersons_quiet:
  assumes "bindEventPersons eventID (Decoded ps) w = (r, w')" and "quiet (length ps + 2) w"
  shows "r = NoContent StatusNoContent \<and>
     calls w' = calls w @ Begin # map (\<lambda>p. Exec (InsertEventPerson eventID (PersonId p))) ps @ [Commit]"
proof -
  let ?w2 = "Errorf ''info: enevt_id %v'' w"
  let ?w3 = "?w2\<lparr>calls := calls ?w2 @ [Begin], faults := tl (faults ?w2), tx := Some (db ?w2)\<rparr>"
  have f3: "faults ?w3 = tl (faults w)" by simp
  from assms(2) have q0: "fault_at 0 w = None" and q3: "quiet (Suc (length ps)) ?w3"
    using quiet_tl[OF f3] by simp_all
  obtain r4 w4 where loop: "bindEventPersons_loop eventID ps ?w3 = (r4, w4)"
    by (cases "bindEventPersons_loop eventID ps ?w3")
  have t3: "tx ?w3 = Some (db w)" by simp
  from q3 have q3': "quiet (length ps) ?w3" and q3'': "fault_at (length ps) ?w3 = None"
    by (simp_all add: quiet_Suc_last)
  note inv = persons_loop_inv[OF t3 loop]
  note lq = persons_loop_quiet[OF t3 q3' loop]
  from lq have "faults w4 = drop (length ps) (faults ?w3)" by simp
  from fault_at_drop[OF this, of 0] q3'' have q4: "fault_at 0 w4 = None"
    by simp
  from lq inv obtain t4 where t4: "tx w4 = Some t4" by auto
  from assms(1) q0 loop lq show ?thesis
      by (auto simp: bindEventPersons_def db_Beginx_eq defer_Rollback_def tx_Rollback_eq
            tx_Commit_eq[OF t4] q4 Let_def)
qed


lemma bindEventPersons_fault:
  assumes "bindEventPersons eventID (Decoded ps) w = (r, w')"
    and "k < length ps" and "quiet (Suc k) w" and "fault_at (Suc k) w = Some e"
  shows "r = (if is_duplicate_entry e then String StatusConflict ''duplicated: bind''
               else NoContent StatusInternalServerError) \<and>
     calls w' = calls w @ Begin # map (\<lambda>p. Exec (InsertEventPerson eventID (PersonId p))) (take (Suc k) ps) @ [Rollback] \<and>
     db w' = db w"
proof -
  let ?w2 = "Errorf ''info: enevt_id %v'' w"
  let ?w3 = "?w2\<lparr>calls := calls ?w2 @ [Begin], faults := tl (faults ?w2), tx := Some (db ?w2)\<rparr>"
  have f3: "faults ?w3 = tl (faults w)" by simp
  from assms(3,4) have q0: "fault_at 0 w = None" and q3: "quiet k ?w3"
    and fk: "fault_at k ?w3 = Some e"
    using quiet_tl[OF f3] fault_at_tl[OF f3] by simp_all
  obtain r4 w4 where loop: "bindEventPersons_loop eventID ps ?w3 = (r4, w4)"
    by (cases "bindEventPersons_loop eventID ps ?w3")
  have t3: "tx ?w3 = Some (db w)" by simp
  note inv = persons_loop_inv[OF t3 loop]
  note lf = persons_loop_fault[OF t3 assms(2) q3 fk loop]
  from assms(1) q0 loop lf inv show ?thesis
      by (auto simp: bindEventPersons_def db_Beginx_eq defer_Rollback_def tx_Rollback_eq Let_def)
qed

lemma images_loop_inv:
  "tx w = Some t \<Longrightarrow> bindEventImages_loop eventID ps w = (r, w') \<Longrightarrow>
     db w' = db w \<and> coerce w' = coerce w \<and>
     (case r of
        None \<Rightarrow> tx w' = Some (t\<lparr>event_image_tagging := event_image_tagging t @ map (\<lambda>p. (coerce w eventID, ImageId p)) ps\<rparr>)
      | Some a \<Rightarrow> a \<noteq> NoContent StatusNoContent \<and> tx w' \<noteq> None)"
proof (induction ps arbitrary: w t)
  case Nil
  then show ?case by auto
next
  case (Cons p ps)
  show ?case
  proof (cases "fault_at 0 w")
    case None
    let ?w1 = "run_stmt (InsertEventImage eventID (ImageId p)) t (w\<lparr>calls := calls w @ [Exec (InsertEventImage eventID (ImageId p))], faults := tl (faults w)\<rparr>)"
    from Cons.prems None have step: "bindEventImages_loop eventID ps ?w1 = (r, w')"
      by (simp add: tx_Exec_eq Let_def)
    have "tx ?w1 = Some (t\<lparr>event_image_tagging := event_image_tagging t @ [(coerce w eventID, ImageId p)]\<rparr>)"
      by simp
    from Cons.IH[OF this step] show ?thesis
      by (auto split: option.splits)
  next
    case (Some e)
    with Cons.prems show ?thesis
      by (auto simp: tx_Exec_eq Errorf_def Let_def split: if_splits)
  qed
qed

lemma images_loop_quiet:
  "tx w = Some t \<Longrightarrow> quiet (length ps) w \<Longrightarrow> bindEventImages_loop eventID ps w = (r, w') \<Longrightarrow>
     r = None \<and> calls w' = calls w @ map (\<lambda>p. Exec (InsertEventImage eventID (ImageId p))) ps \<and> faults w' = drop (length ps) (faults w)"
proof (induction ps arbitrary: w t)
  case Nil
  then show ?case by auto
next
  case (Cons p ps)
  let ?w1 = "run_stmt (InsertEventImage eventID (ImageId p)) t (w\<lparr>calls := calls w @ [Exec (InsertEventImage eventID (ImageId p))], faults := tl (faults w)\<rparr>)"
  have fw1: "faults ?w1 = tl (faults w)" by simp
  from Cons.prems have q0: "fault_at 0 w = None" and q: "quiet (length ps) ?w1"
    using quiet_tl[OF fw1] by simp_all
  from Cons.prems q0 have step: "bindEventImages_loop eventID ps ?w1 = (r, w')"
    by (simp add: tx_Exec_eq Let_def)
  have "tx ?w1 = Some (t\<lparr>event_image_tagging := event_image_tagging t @ [(coerce w eventID, ImageId p)]\<rparr>)"
    by simp
  from Cons.IH[OF this q step] show ?case
    by (simp add: drop_Suc)
qed

lemma images_loop_fault:
  "tx w = Some t \<Longrightarrow> k < length ps \<Longrightarrow> quiet k w \<Longrightarrow> fault_at k w = Some e \<Longrightarrow>
   bindEventImages_loop eventID ps w = (r, w') \<Longrightarrow>
     r = Some (if is_duplicate_entry e then String StatusConflict ''duplicated: bind''
               else NoContent StatusInternalServerError) \<and>
     calls w' = calls w @ map (\<lambda>p. Exec (InsertEventImage eventID (ImageId p))) (take (Suc k) ps) \<and> tx w' \<noteq> None"
proof (induction ps arbitrary: w t k)
  case Nil
  then show ?case by simp
next
  case (Cons p ps)
  show ?case
  proof (cases k)
    case 0
    with Cons.prems show ?thesis
      by (auto simp: tx_Exec_eq Errorf_def Let_def)
  next
    case (Suc j)
    let ?w1 = "run_stmt (InsertEventImage eventID (ImageId p)) t (w\<lparr>calls := calls w @ [Exec (InsertEventImage eventID (ImageId p))], faults := tl (faults w)\<rparr>)"
    have fw1: "faults ?w1 = tl (faults w)" by simp
    from Cons.prems Suc have q0: "fault_at 0 w = None" and q: "quiet j ?w1"
      and f: "fault_at j ?w1 = Some e" and j: "j < length ps"
      using quiet_tl[OF fw1] fault_at_tl[OF fw1] by simp_all
    from Cons.prems q0 have step: "bindEventImages_loop eventID ps ?w1 = (r, w')"
      by (simp add: tx_Exec_eq Let_def)
    have "tx ?w1 = Some (t\<lparr>event_image_tagging := event_image_tagging t @ [(coerce w eventID, ImageId p)]\<rparr>)"
      by simp
    from Cons.IH[OF this j q f step] Suc show ?thesis
      by (simp add:)
  qed
qed


lemma bindEventImages_atomic:
  assumes "bindEventImages eventID (Decoded ps) w = (r, w')"
  shows "r \<noteq> NoContent StatusNoContent \<and> db w' = db w \<or>
      r = NoContent StatusNoContent \<and>
      db w' = (db w)\<lparr>event_image_tagging := event_image_tagging (db w) @ map (\<lambda>p. (coerce w eventID, ImageId p)) ps\<rparr>"
proof (cases "fault_at 0 w")
  case (Some e)
  with assms show ?thesis
    by (auto simp: bindEventImages_def db_Beginx_eq Let_def)
next
  case None
  let ?w2 = "Errorf ''info: enevt_id %v'' w"
  let ?w3 = "?w2\<lparr>calls := calls ?w2 @ [Begin], faults := tl (faults ?w2), tx := Some (db ?w2)\<rparr>"
  obtain r4 w4 where loop: "bindEventImages_loop eventID ps ?w3 = (r4, w4)"
    by (cases "bindEventImages_loop eventID ps ?w3")
  have t3: "tx ?w3 = Some (db w)" by simp
  note inv = images_loop_inv[OF t3 loop]
  from assms None loop have res: "(r, w') = defer_Rollback
             (case r4 of Some a \<Rightarrow> (a, w4)
              | None \<Rightarrow>
                  (case tx_Commit w4 of
                     (Some err, w5) \<Rightarrow>
                       (NoContent StatusInternalServerError, Errorf ''db error: %v'' w5)
                   | (None, w5) \<Rightarrow> (NoContent StatusNoContent, w5)))"
    by (simp add: bindEventImages_def db_Beginx_eq Let_def)
  show ?thesis
  proof (cases r4)
    case (Some a)
    with res inv show ?thesis
      by (auto simp: defer_Rollback_def tx_Rollback_eq)
  next
    case n: None
    with inv have t4: "tx w4 = Some ((db w)\<lparr>event_image_tagging := event_image_tagging (db w) @ map (\<lambda>p. (coerce ?w3 eventID, ImageId p)) ps\<rparr>)"
      by simp
    from res n inv show ?thesis
      by (auto simp: defer_Rollback_def tx_Rollback_eq
            tx_Commit_eq[OF t4] split: option.splits)
  qed
qed

lemma bindEventImages_quiet:
  assumes "bindEventImages eventID (Decoded ps) w = (r, w')" and "quiet (length ps + 2) w"
  shows "r = NoContent StatusNoContent \<and>
     calls w' = calls w @ Begin # map (\<lambda>p. Exec (InsertEventImage eventID (ImageId p))) ps @ [Commit]"
proof -
  let ?w2 = "Errorf ''info: enevt_id %v'' w"
  let ?w3 = "?w2\<lparr>calls := calls ?w2 @ [Begin], faults := tl (faults ?w2), tx := Some (db ?w2)\<rparr>"
  have f3: "faults ?w3 = tl (faults w)" by simp
  from assms(2) have q0: "fault_at 0 w = None" and q3: "quiet (Suc (length ps)) ?w3"
    using quiet_tl[OF f3] by simp_all
  obtain r4 w4 where loop: "bindEventImages_loop eventID ps ?w3 = (r4, w4)"
    by (cases "bindEventImages_loop eventID ps ?w3")
  have t3: "tx ?w3 = Some (db w)" by simp
  from q3 have q3': "quiet (length ps) ?w3" and q3'': "fault_at (length ps) ?w3 = None"
    by (simp_all add: quiet_Suc_last)
  note inv = images_loop_inv[OF t3 loop]
  note lq = images_loop_quiet[OF t3 q3' loop]
  from lq have "faults w4 = drop (length ps) (faults ?w3)" by simp
  from fault_at_drop[OF this, of 0] q3'' have q4: "fault_at 0 w4 = None"
    by simp
  from lq inv obtain t4 where t4: "tx w4 = Some t4" by auto
  from assms(1) q0 loop lq show ?thesis
      by (auto simp: bindEventImages_def db_Beginx_eq defer_Rollback_def tx_Rollback_eq
            tx_Commit_eq[OF t4] q4 Let_def)
qed


lemma bindEventImages_fault:
  assumes "bindEventImages eventID (Decoded ps) w = (r, w')"
    and "k < length ps" and "quiet (Suc k) w" and "fault_at (Suc k) w = Some e"
  shows "r = (if is_duplicate_entry e then String StatusConflict ''duplicated: bind''
               else NoContent StatusInternalServerError) \<and>
     calls w' = calls w @ Begin # map (\<lambda>p. Exec (InsertEventImage eventID (ImageId p))) (take (Suc k) ps) @ [Rollback] \<and>
     db w' = db w"
proof -
  let ?w2 = "Errorf ''info: enevt_id %v'' w"
  let ?w3 = "?w2\<lparr>calls := calls ?w2 @ [Begin], faults := tl (faults ?w2), tx := Some (db ?w2)\<rparr>"
  have f3: "faults ?w3 = tl (faults w)" by simp
  from assms(3,4) have q0: "fault_at 0 w = None" and q3: "quiet k ?w3"
    and fk: "fault_at k ?w3 = Some e"
    using quiet_tl[OF f3] fault_at_tl[OF f3] by simp_all
  obtain r4 w4 where loop: "bindEventImages_loop eventID ps ?w3 = (r4, w4)"
    by (cases "bindEventImages_loop eventID ps ?w3")
  have t3: "tx ?w3 = Some (db w)" by simp
  note inv = images_loop_inv[OF t3 loop]
  note lf = images_loop_fault[OF t3 assms(2) q3 fk loop]
  from assms(1) q0 loop lf inv show ?thesis
      by (auto simp: bindEventImages_def db_Beginx_eq defer_Rollback_def tx_Rollback_eq Let_def)
qed

lemma fresh_world_fields [simp]:
  "db (fresh_world fs) = empty_db" "tx (fresh_world fs) = None" "faults (fresh_world fs) = fs"
  "calls (fresh_world fs) = []" "coerce (fresh_world fs) = decimal_value"
  "files (fresh_world fs) = Map.empty" "logs (fresh_world fs) = []"
  by (simp_all add: fresh_world_def)

section \<open>The tagging handlers\<close>

text \<open>
  C1. \<open>bindEventPersons\<close> and \<open>bindEventImages\<close> on a decoded list of ids, in any world
  and for any answers of the store. The three parts, for each handler:
  \<^item> whatever the store answers, either the answer is not 204 and the committed content
    is unchanged, or it is 204 and the committed tagging table has grown by exactly one
    row per id, in the order of the list: no part of a batch persists;
  \<^item> when the store accepts the begin, every insert and the commit, the calls are one
    \<open>Begin\<close>, one insert per id in the order of the list, and one \<open>Commit\<close>;
  \<^item> when the store accepts the begin and the first \<open>k\<close> inserts and answers the next
    insert with the error \<open>e\<close>, the answer is 409 "duplicated: bind" for a duplicate
    entry (MySQL error 1062) and 500 otherwise, the inserts after the failed one are
    never attempted, the transaction is rolled back and the committed content is
    unchanged.
\<close>

theorem bind_batch_atomic:
  "(case bindEventPersons eventID (Decoded personList) w of (r, w') \<Rightarrow>
      (r \<noteq> NoContent StatusNoContent \<and> db w' = db w \<or>
       r = NoContent StatusNoContent \<and>
       db w' = (db w)\<lparr>event_person_tagging := event_person_tagging (db w) @
                  map (\<lambda>p. (coerce w eventID, PersonId p)) personList\<rparr>) \<and>
      (quiet (length personList + 2) w \<longrightarrow>
         r = NoContent StatusNoContent \<and>
         calls w' = calls w @
           Begin # map (\<lambda>p. Exec (InsertEventPerson eventID (PersonId p))) personList @ [Commit]) \<and>
      (k < length personList \<and> quiet (Suc k) w \<and> fault_at (Suc k) w = Some e \<longrightarrow>
         r = (if is_duplicate_entry e then String StatusConflict ''duplicated: bind''
              else NoContent StatusInternalServerError) \<and>
         calls w' = calls w @
           Begin # map (\<lambda>p. Exec (InsertEventPerson eventID (PersonId p))) (take (Suc k) personList)
             @ [Rollback] \<and>
         db w' = db w)) \<and>
   (case bindEventImages eventID (Decoded imageList) w of (r, w') \<Rightarrow>
      (r \<noteq> NoContent StatusNoContent \<and> db w' = db w \<or>
       r = NoContent StatusNoContent \<and>
       db w' = (db w)\<lparr>event_image_tagging := event_image_tagging (db w) @
                  map (\<lambda>p. (coerce w eventID, ImageId p)) imageList\<rparr>) \<and>
      (quiet (length imageList + 2) w \<longrightarrow>
         r = NoContent StatusNoContent \<and>
         calls w' = calls w @
           Begin # map (\<lambda>p. Exec (InsertEventImage eventID (ImageId p))) imageList @ [Commit]) \<and>
      (j < length imageList \<and> quiet (Suc j) w \<and> fault_at (Suc j) w = Some e \<longrightarrow>
         r = (if is_duplicate_entry e then String StatusConflict ''duplicated: bind''
              else NoContent StatusInternalServerError) \<and>
         calls w' = calls w @
           Begin # map (\<lambda>p. Exec (InsertEventImage eventID (ImageId p))) (take (Suc j) imageList)
             @ [Rollback] \<and>
         db w' = db w))"
proof -
  obtain r w' where P: "bindEventPersons eventID (Decoded personList) w = (r, w')"
    by (cases "bindEventPersons eventID (Decoded personList) w")
  obtain r2 w2 where I: "bindEventImages eventID (Decoded imageList) w = (r2, w2)"
    by (cases "bindEventImages eventID (Decoded imageList) w")
  show ?thesis
    unfolding P I prod.case
    using bindEventPersons_atomic[OF P] bindEventPersons_quiet[OF P]
      bindEventPersons_fault[OF P, of k e]
      bindEventImages_atomic[OF I] bindEventImages_quiet[OF I]
      bindEventImages_fault[OF I, of j e]
    by blast
qed

theorem bind_batch_atomic_witness:
  "fst (bindEventPersons ''7'' (Decoded two_persons) (fresh_world [])) = NoContent StatusNoContent \<and>
   event_person_tagging (db (snd (bindEventPersons ''7'' (Decoded two_persons) (fresh_world []))))
     = [(7, 1), (7, 2)] \<and>
   calls (snd (bindEventPersons ''7'' (Decoded two_persons) (fresh_world [])))
     = [Begin, Exec (InsertEventPerson ''7'' 1), Exec (InsertEventPerson ''7'' 2), Commit] \<and>
   fst (bindEventPersons ''7'' (Decoded two_persons)
          (fresh_world [None, None, Some (MySQLError 1062)])) = String StatusConflict ''duplicated: bind'' \<and>
   calls (snd (bindEventPersons ''7'' (Decoded two_persons)
          (fresh_world [None, None, Some (MySQLError 1062)])))
     = [Begin, Exec (InsertEventPerson ''7'' 1), Exec (InsertEventPerson ''7'' 2), Rollback] \<and>
   db (snd (bindEventPersons ''7'' (Decoded two_persons)
          (fresh_world [None, None, Some (MySQLError 1062)]))) = empty_db \<and>
   fst (bindEventImages ''7'' (Decoded two_images) (fresh_world [])) = NoContent StatusNoContent \<and>
   event_image_tagging (db (snd (bindEventImages ''7'' (Decoded two_images) (fresh_world []))))
     = [(7, 5), (7, 6)] \<and>
   fst (bindEventImages ''7'' (Decoded two_images)
          (fresh_world [None, Some (OtherError ''connection lost'')])) = NoContent StatusInternalServerError \<and>
   calls (snd (bindEventImages ''7'' (Decoded two_images)
          (fresh_world [None, Some (OtherError ''connection lost'')])))
     = [Begin, Exec (InsertEventImage ''7'' 5), Rollback] \<and>
   db (snd (bindEventImages ''7'' (Decoded two_images)
          (fresh_world [None, Some (OtherError ''connection lost'')]))) = empty_db"
  using bind_batch_atomic[where eventID = "''7''" and personList = two_persons
      and w = "fresh_world []" and k = 0 and e = "MySQLError 1062" and imageList = two_images and j = 0]
    bind_batch_atomic[where eventID = "''7''" and personList = two_persons
      and w = "fresh_world [None, None, Some (MySQLError 1062)]" and k = 1
      and e = "MySQLError 1062" and imageList = "[]" and j = 0]
    bind_batch_atomic[where eventID = "''7''" and personList = "[]"
      and w = "fresh_world [None, Some (OtherError ''connection lost'')]" and k = 0
      and e = "OtherError ''connection lost''" and imageList = two_images and j = 0]
  by (auto simp: case_prod_unfold quiet_def fault_at_def answer_def two_persons_def
        two_images_def empty_db_def decimal_value_def mysqlErrNumDuplicateEntry_def)

section \<open>Straight-line handlers: the steps spelled out\<close>

lemma answer_simps [simp]:
  "answer [] n = None" "answer (f # fs) 0 = f" "answer (f # fs) (Suc n) = answer fs n"
  by (simp_all add: answer_def)

lemma answer_tl [simp]: "answer (tl fs) n = answer fs (Suc n)"
  by (cases fs) simp_all

lemma quiet_answer: "quiet n w \<Longrightarrow> i < n \<Longrightarrow> answer (faults w) i = None"
  by (auto simp: quiet_def answer_def list_all_length)

lemma next_fault_answer: "next_fault w = (answer (faults w) 0, w\<lparr>faults := tl (faults w)\<rparr>)"
  by (cases "faults w") (simp_all add: next_fault_def)

lemma db_Beginx_full:
  "db_Beginx w = (case answer (faults w) 0 of
       Some e \<Rightarrow> (Some e, w\<lparr>calls := calls w @ [Begin], faults := tl (faults w)\<rparr>)
     | None \<Rightarrow> (None, w\<lparr>calls := calls w @ [Begin], faults := tl (faults w), tx := Some (db w)\<rparr>))"
  by (simp add: db_Beginx_def next_fault_answer record_call_def split: option.splits)

lemma tx_Exec_full:
  "tx_Exec s w = (case tx w of None \<Rightarrow> (Some ErrTxDone, w) | Some t \<Rightarrow>
     (case answer (faults w) 0 of
       Some e \<Rightarrow> (Some e, w\<lparr>calls := calls w @ [Exec s], faults := tl (faults w)\<rparr>)
     | None \<Rightarrow> (None, run_stmt s t (w\<lparr>calls := calls w @ [Exec s], faults := tl (faults w)\<rparr>))))"
  by (simp add: tx_Exec_def next_fault_answer record_call_def split: option.splits)

lemma tx_Get_LAST_INSERT_ID_full:
  "tx_Get_LAST_INSERT_ID w = (case tx w of None \<Rightarrow> (Inl ErrTxDone, w) | Some t \<Rightarrow>
     (case answer (faults w) 0 of
       Some e \<Rightarrow> (Inl e, w\<lparr>calls := calls w @ [SelectLastInsertId], faults := tl (faults w)\<rparr>)
     | None \<Rightarrow>
         (if fits_int (last_insert_id w)
          then (Inr (last_insert_id w), w\<lparr>calls := calls w @ [SelectLastInsertId], faults := tl (faults w)\<rparr>)
          else (Inl (OtherError ''value out of range''),
                w\<lparr>calls := calls w @ [SelectLastInsertId], faults := tl (faults w)\<rparr>))))"
  by (simp add: tx_Get_LAST_INSERT_ID_def next_fault_answer record_call_def split: option.splits)

lemma tx_Commit_full:
  "tx_Commit w = (case tx w of None \<Rightarrow> (Some ErrTxDone, w) | Some t \<Rightarrow>
     (case answer (faults w) 0 of
       Some e \<Rightarrow> (Some e, w\<lparr>calls := calls w @ [Commit], faults := tl (faults w), tx := None\<rparr>)
     | None \<Rightarrow> (None, w\<lparr>calls := calls w @ [Commit], faults := tl (faults w), db := t, tx := None\<rparr>)))"
  by (simp add: tx_Commit_def next_fault_answer record_call_def split: option.splits)

lemma os_Create_full:
  "os_Create name w = (case answer (faults w) 0 of
       Some e \<Rightarrow> (Some e, w\<lparr>faults := tl (faults w)\<rparr>)
     | None \<Rightarrow> (None, w\<lparr>faults := tl (faults w), files := (files w)(name \<mapsto> [])\<rparr>))"
  by (simp add: os_Create_def next_fault_answer split: option.splits)

lemma io_Copy_full:
  "io_Copy dst src w = (case src of None \<Rightarrow> (Some (OtherError ''invalid argument''), w) | Some content \<Rightarrow>
     (case answer (faults w) 0 of
       Some e \<Rightarrow> (Some e, w\<lparr>faults := tl (faults w)\<rparr>)
     | None \<Rightarrow> (None, w\<lparr>faults := tl (faults w), files := (files w)(dst \<mapsto> content)\<rparr>)))"
  by (simp add: io_Copy_def next_fault_answer split: option.splits)

lemmas store_steps = db_Beginx_full tx_Exec_full tx_Get_LAST_INSERT_ID_full tx_Commit_full
  os_Create_full io_Copy_full tx_Rollback_eq defer_Rollback_def Errorf_def Let_def

declare quiet_0 [simp]

lemma quiet_Suc_answer [simp]: "quiet (Suc n) w \<longleftrightarrow> quiet n w \<and> answer (faults w) n = None"
  by (auto simp: quiet_def answer_def take_Suc_conv_app_nth)

lemma small_numerals:
  "(2::nat) = Suc (Suc 0)" "(3::nat) = Suc (Suc (Suc 0))" "(4::nat) = Suc (Suc (Suc (Suc 0)))"
  "(5::nat) = Suc (Suc (Suc (Suc (Suc 0))))" "(6::nat) = Suc (Suc (Suc (Suc (Suc (Suc 0)))))"
  by simp_all

lemma below_4: "k < (4::nat) \<Longrightarrow> k = 0 \<or> k = 1 \<or> k = 2 \<or> k = 3"
  by arith

lemma below_6: "k < (6::nat) \<Longrightarrow> k = 0 \<or> k = 1 \<or> k = 2 \<or> k = 3 \<or> k = 4 \<or> k = 5"
  by arith

lemma postPerson_atomic:
  assumes "postPerson (Decoded p) w = (r, w')"
  shows "(r = JSON StatusCreated (IdMap ''PersonID'' (next_person_id w)) \<and>
       db w' = (db w)\<lparr>persons := persons (db w) @
          [\<lparr>PersonId = next_person_id w, FirstName = FirstName p, LastName = LastName p\<rparr>]\<rparr> \<or>
       status r \<noteq> StatusCreated \<and> db w' = db w)"
  using assms
  by (auto simp: postPerson_def store_steps split: option.splits if_splits)

lemma postPerson_quiet:
  assumes "postPerson (Decoded p) w = (r, w')"
  shows "(quiet 4 w \<and> fits_int (next_person_id w) \<longrightarrow>
         r = JSON StatusCreated (IdMap ''PersonID'' (next_person_id w)) \<and>
         calls w' = calls w @
           [Begin, Exec (InsertPerson (FirstName p) (LastName p)),
            SelectLastInsertId, Commit] \<and>
         tx w' = None)"
  using assms
  by (auto simp: postPerson_def store_steps small_numerals)

lemma postPerson_first_fault:
  assumes "postPerson (Decoded p) w = (r, w')"
  shows "(k < 4 \<and> quiet k w \<and> fault_at k w = Some e \<and>
       (k = 3 \<longrightarrow> fits_int (next_person_id w)) \<longrightarrow>
         r = (if k = 1 \<and> is_duplicate_entry e then String StatusConflict ''duplicated: person''
              else NoContent StatusInternalServerError) \<and>
         db w' = db w \<and>
         calls w' = calls w @
           (if k = 0 then [Begin]
            else if k = 1 then
              [Begin, Exec (InsertPerson (FirstName p) (LastName p)), Rollback]
            else if k = 2 then
              [Begin, Exec (InsertPerson (FirstName p) (LastName p)),
               SelectLastInsertId, Rollback]
            else
              [Begin, Exec (InsertPerson (FirstName p) (LastName p)),
               SelectLastInsertId, Commit]) \<and>
         tx w' = (if k = 0 then tx w else None))"
proof (intro impI, elim conjE)
  assume k: "k < 4" and rest: "quiet k w" "fault_at k w = Some e"
    "k = 3 \<longrightarrow> fits_int (next_person_id w)"
  from below_4[OF k] assms rest
  show "r = (if k = 1 \<and> is_duplicate_entry e then String StatusConflict ''duplicated: person''
              else NoContent StatusInternalServerError) \<and>
         db w' = db w \<and>
         calls w' = calls w @ (if k = 0 then [Begin]
            else if k = 1 then
              [Begin, Exec (InsertPerson (FirstName p) (LastName p)), Rollback]
            else if k = 2 then
              [Begin, Exec (InsertPerson (FirstName p) (LastName p)),
               SelectLastInsertId, Rollback]
            else
              [Begin, Exec (InsertPerson (FirstName p) (LastName p)),
               SelectLastInsertId, Commit]) \<and>
         tx w' = (if k = 0 then tx w else None)"
    by (elim disjE) (auto simp: postPerson_def store_steps fault_at_def small_numerals)
qed

lemma postPerson_out_of_range:
  assumes "postPerson (Decoded p) w = (r, w')"
  shows "(quiet 3 w \<and> \<not> fits_int (next_person_id w) \<longrightarrow>
         r = NoContent StatusInternalServerError \<and> db w' = db w \<and>
         calls w' = calls w @
           [Begin, Exec (InsertPerson (FirstName p) (LastName p)),
            SelectLastInsertId, Rollback] \<and>
         tx w' = None)"
  using assms
  by (auto simp: postPerson_def store_steps small_numerals)

lemma uploadImage_atomic:
  assumes "uploadImage (Some file) w = (r, w')"
  shows "(r = JSON StatusCreated (IdMap ''ImageID'' (next_image_id w)) \<and>
       db w' = (db w)\<lparr>images := images (db w) @
          [\<lparr>ImageId = next_image_id w, ImageName = Filename file,
            ContentType = Header_Content_Type file\<rparr>]\<rparr> \<or>
       status r \<noteq> StatusCreated \<and> db w' = db w)"
  using assms
  by (auto simp: uploadImage_def store_steps split: option.splits if_splits)

lemma uploadImage_quiet:
  assumes "uploadImage (Some file) w = (r, w')"
  shows "(Size file \<le> 1000000 \<and> Open file = Some content \<and> quiet 6 w \<and> fits_int (next_image_id w) \<longrightarrow>
         r = JSON StatusCreated (IdMap ''ImageID'' (next_image_id w)) \<and>
         calls w' = calls w @
           [Begin, Exec (InsertImage (Filename file) (Header_Content_Type file)),
            SelectLastInsertId, Commit] \<and>
         tx w' = None)"
  using assms
  by (auto simp: uploadImage_def store_steps small_numerals)

lemma uploadImage_first_fault:
  assumes "uploadImage (Some file) w = (r, w')"
  shows "(Size file \<le> 1000000 \<and> Open file = Some content \<and>
       k < 6 \<and> quiet k w \<and> fault_at k w = Some e \<and>
       (2 < k \<longrightarrow> fits_int (next_image_id w)) \<longrightarrow>
         r = (if k = 1 \<and> is_duplicate_entry e then String StatusConflict ''duplicated: image''
              else NoContent StatusInternalServerError) \<and>
         db w' = db w \<and>
         calls w' = calls w @
           (if k = 0 then [Begin]
            else if k = 1 then
              [Begin, Exec (InsertImage (Filename file) (Header_Content_Type file)), Rollback]
            else if k < 5 then
              [Begin, Exec (InsertImage (Filename file) (Header_Content_Type file)),
               SelectLastInsertId, Rollback]
            else
              [Begin, Exec (InsertImage (Filename file) (Header_Content_Type file)),
               SelectLastInsertId, Commit]) \<and>
         tx w' = (if k = 0 then tx w else None))"
proof (intro impI, elim conjE)
  assume k: "k < 6" and rest: "Size file \<le> 1000000" "Open file = Some content" "quiet k w" "fault_at k w = Some e"
    "2 < k \<longrightarrow> fits_int (next_image_id w)"
  from below_6[OF k] assms rest
  show "r = (if k = 1 \<and> is_duplicate_entry e then String StatusConflict ''duplicated: image''
              else NoContent StatusInternalServerError) \<and>
         db w' = db w \<and>
         calls w' = calls w @ (if k = 0 then [Begin]
            else if k = 1 then
              [Begin, Exec (InsertImage (Filename file) (Header_Content_Type file)), Rollback]
            else if k < 5 then
              [Begin, Exec (InsertImage (Filename file) (Header_Content_Type file)),
               SelectLastInsertId, Rollback]
            else
              [Begin, Exec (InsertImage (Filename file) (Header_Content_Type file)),
               SelectLastInsertId, Commit]) \<and>
         tx w' = (if k = 0 then tx w else None)"
    by (elim disjE) (auto simp: uploadImage_def store_steps fault_at_def small_numerals)
qed

lemma uploadImage_out_of_range:
  assumes "uploadImage (Some file) w = (r, w')"
  shows "(Size file \<le> 1000000 \<and> quiet 3 w \<and> \<not> fits_int (next_image_id w) \<longrightarrow>
         r = NoContent StatusInternalServerError \<and> db w' = db w \<and>
         calls w' = calls w @
           [Begin, Exec (InsertImage (Filename file) (Header_Content_Type file)),
            SelectLastInsertId, Rollback] \<and>
         tx w' = None)"
  using assms
  by (auto simp: uploadImage_def store_steps small_numerals)

lemma uploadImage_open_failed:
  assumes "uploadImage (Some file) w = (r, w')"
  shows "(Size file \<le> 1000000 \<and> Open file = None \<and> quiet 4 w \<and>
       fits_int (next_image_id w) \<longrightarrow>
         r = NoContent StatusInternalServerError \<and> db w' = db w \<and>
         calls w' = calls w @
           [Begin, Exec (InsertImage (Filename file) (Header_Content_Type file)),
            SelectLastInsertId, Rollback] \<and>
         tx w' = None)"
  using assms
  by (auto simp: uploadImage_def store_steps small_numerals)

lemma db_Get_event_full:
  "db_Get_event eventID w = (case answer (faults w) 0 of
       Some e \<Rightarrow> (Inl e, w\<lparr>calls := calls w @ [GetEvent eventID], faults := tl (faults w)\<rparr>)
     | None \<Rightarrow> (case find (\<lambda>r. EventID r = coerce w eventID) (events (db w)) of
          None \<Rightarrow> Inl ErrNoRows | Some r \<Rightarrow> Inr r,
        w\<lparr>calls := calls w @ [GetEvent eventID], faults := tl (faults w)\<rparr>))"
  by (simp add: db_Get_event_def next_fault_answer record_call_def split: option.splits)

lemma db_Get_person_full:
  "db_Get_person personID w = (case answer (faults w) 0 of
       Some e \<Rightarrow> (Inl e, w\<lparr>calls := calls w @ [GetPerson personID], faults := tl (faults w)\<rparr>)
     | None \<Rightarrow> (case find (\<lambda>r. PersonId r = coerce w personID) (persons (db w)) of
          None \<Rightarrow> Inl ErrNoRows | Some r \<Rightarrow> Inr r,
        w\<lparr>calls := calls w @ [GetPerson personID], faults := tl (faults w)\<rparr>))"
  by (simp add: db_Get_person_def next_fault_answer record_call_def split: option.splits)

lemma db_Get_image_full:
  "db_Get_image imageID w = (case answer (faults w) 0 of
       Some e \<Rightarrow> (Inl e, w\<lparr>calls := calls w @ [GetImage imageID], faults := tl (faults w)\<rparr>)
     | None \<Rightarrow> (case find (\<lambda>r. ImageId r = coerce w imageID) (images (db w)) of
          None \<Rightarrow> Inl ErrNoRows | Some r \<Rightarrow> Inr r,
        w\<lparr>calls := calls w @ [GetImage imageID], faults := tl (faults w)\<rparr>))"
  by (simp add: db_Get_image_def next_fault_answer record_call_def split: option.splits)

lemma find_after_delete: "find (\<lambda>r. key r = k) (filter (\<lambda>r. key r \<noteq> k) rows) = None"
  by (simp add: find_None_iff)

lemma deletePerson_then_get:
  assumes "deletePerson personID w = (r, w')"
  shows "(quiet 3 w \<longrightarrow> r = NoContent StatusNoContent) \<and>
     (r = NoContent StatusNoContent \<longrightarrow>
        persons (db w') = filter (\<lambda>r. PersonId r \<noteq> coerce w personID) (persons (db w)) \<and>
        events (db w') = events (db w) \<and> images (db w') = images (db w) \<and>
        event_person_tagging (db w') = event_person_tagging (db w) \<and>
        event_image_tagging (db w') = event_image_tagging (db w) \<and>
        (fault_at 0 w' = None \<longrightarrow>
           fst (getPerson personID w') = String StatusNotFound ''not found: person''))"
  using assms
  by (auto simp: deletePerson_def getPerson_def store_steps db_Get_person_full fault_at_def
        find_after_delete small_numerals split: option.splits)

lemma deleteEvent_then_get:
  assumes "deleteEvent eventID w = (r, w')"
  shows "(quiet 3 w \<longrightarrow> r = NoContent StatusNoContent) \<and>
     (r = NoContent StatusNoContent \<longrightarrow>
        events (db w') = filter (\<lambda>r. EventID r \<noteq> coerce w eventID) (events (db w)) \<and>
        persons (db w') = persons (db w) \<and> images (db w') = images (db w) \<and>
        event_person_tagging (db w') = event_person_tagging (db w) \<and>
        event_image_tagging (db w') = event_image_tagging (db w) \<and>
        (fault_at 0 w' = None \<longrightarrow>
           fst (getEvent eventID w') = String StatusNotFound ''not found: event''))"
  using assms
  by (auto simp: deleteEvent_def getEvent_def store_steps db_Get_event_full fault_at_def
        find_after_delete small_numerals split: option.splits)

lemma deleteImage_then_get:
  assumes "deleteImage imageID w = (r, w')"
  shows "(quiet 3 w \<longrightarrow> r = NoContent StatusNoContent) \<and>
     (r = NoContent StatusNoContent \<longrightarrow>
        images (db w') = filter (\<lambda>r. ImageId r \<noteq> coerce w imageID) (images (db w)) \<and>
        events (db w') = events (db w) \<and> persons (db w') = persons (db w) \<and>
        event_person_tagging (db w') = event_person_tagging (db w) \<and>
        event_image_tagging (db w') = event_image_tagging (db w) \<and>
        (fault_at 0 w' = None \<longrightarrow>
           fst (getImage imageID w') = String StatusNotFound ''not found: image''))"
  using assms
  by (auto simp: deleteImage_def getImage_def store_steps db_Get_image_full fault_at_def
        find_after_delete small_numerals split: option.splits)


lemma db_Queryx_persons_of_event_full:
  "db_Queryx_persons_of_event eventID w = (case answer (faults w) 0 of
       Some e \<Rightarrow> (Inl e, w\<lparr>calls := calls w @ [QueryPersonsOfEvent eventID], faults := tl (faults w)\<rparr>)
     | None \<Rightarrow> (Inr (filter (\<lambda>r. PersonId r \<in> snd ` set (filter (\<lambda>t. fst t = coerce w eventID)
                  (event_person_tagging (db w)))) (persons (db w))),
        w\<lparr>calls := calls w @ [QueryPersonsOfEvent eventID], faults := tl (faults w)\<rparr>))"
  by (simp add: db_Queryx_persons_of_event_def next_fault_answer record_call_def split: option.splits)

lemma db_Queryx_images_of_event_full:
  "db_Queryx_images_of_event eventID w = (case answer (faults w) 0 of
       Some e \<Rightarrow> (Inl e, w\<lparr>calls := calls w @ [QueryImagesOfEvent eventID], faults := tl (faults w)\<rparr>)
     | None \<Rightarrow> (Inr (filter (\<lambda>r. ImageId r \<in> snd ` set (filter (\<lambda>t. fst t = coerce w eventID)
                  (event_image_tagging (db w)))) (images (db w))),
        w\<lparr>calls := calls w @ [QueryImagesOfEvent eventID], faults := tl (faults w)\<rparr>))"
  by (simp add: db_Queryx_images_of_event_def next_fault_answer record_call_def split: option.splits)

lemma no_rows_tagged:
  "\<forall>t \<in> set tagging. fst t \<noteq> k \<Longrightarrow> filter (\<lambda>t. fst t = k) tagging = []"
  by (induction tagging) auto

lemma getEvent_untagged:
  assumes "quiet 3 w" and "find (\<lambda>r. EventID r = coerce w eventID) (events (db w)) = Some ev"
    and "\<forall>t \<in> set (event_person_tagging (db w)). fst t \<noteq> coerce w eventID"
    and "\<forall>t \<in> set (event_image_tagging (db w)). fst t \<noteq> coerce w eventID"
  shows "fst (getEvent eventID w) =
     JSON StatusOK (EventDatailJSON \<lparr>Event = ev, Persons = [], ImageAndPaths = []\<rparr>)"
  using assms(1,2) no_rows_tagged[OF assms(3)] no_rows_tagged[OF assms(4)]
  by (simp add: getEvent_def db_Get_event_full db_Queryx_persons_of_event_full
        db_Queryx_images_of_event_full small_numerals)

lemma getEvent_absent:
  assumes "fault_at 0 w = None" and "find (\<lambda>r. EventID r = coerce w eventID) (events (db w)) = None"
  shows "fst (getEvent eventID w) = String StatusNotFound ''not found: event''"
  using assms
  by (simp add: getEvent_def db_Get_event_full fault_at_def)

lemma rows_StructScan_Inr: "rows_StructScan row w = (Inr r, w') \<Longrightarrow> r = row"
  by (auto simp: rows_StructScan_def split: prod.splits option.splits)

lemma rows_loop_map:
  "rows_loop f rows acc w = (Inr xs, w') \<Longrightarrow> xs = acc @ map f rows"
proof (induction rows arbitrary: acc w)
  case Nil
  then show ?case by simp
next
  case (Cons row rows)
  obtain res w1 where s: "rows_StructScan row w = (res, w1)" by (cases "rows_StructScan row w")
  show ?case
  proof (cases res)
    case (Inl e)
    with Cons.prems s show ?thesis by simp
  next
    case (Inr r)
    with s have "r = row" by (auto dest: rows_StructScan_Inr)
    with Cons.prems s Inr have "rows_loop f rows (acc @ [f row]) w1 = (Inr xs, w')" by simp
    from Cons.IH[OF this] show ?thesis by simp
  qed
qed

lemma rows_loop_Inl:
  "rows_loop f rows acc w = (Inl r, w') \<Longrightarrow> r = NoContent StatusInternalServerError"
proof (induction rows arbitrary: acc w)
  case Nil
  then show ?case by simp
next
  case (Cons row rows)
  obtain res w1 where s: "rows_StructScan row w = (res, w1)" by (cases "rows_StructScan row w")
  show ?case
  proof (cases res)
    case (Inl e)
    with Cons.prems s show ?thesis by simp
  next
    case (Inr r')
    with Cons.prems s have "rows_loop f rows (acc @ [f r']) w1 = (Inl r, w')" by simp
    from Cons.IH[OF this] show ?thesis .
  qed
qed

lemma getEvent_paths:
  assumes "getEvent eventID w = (JSON code (EventDatailJSON d), w')"
  shows "\<forall>ip \<in> set (ImageAndPaths d).
           ImagePath ip = ''/images/'' @ Sprintf_d (ImageId (Image ip)) @ ''.png''"
proof -
  from assms obtain rows w4 w5 where
    "rows_loop (\<lambda>image'. \<lparr>ImagePath = Sprintf_int ''/images/%d.png'' (ImageId image'),
                                             Image = image'\<rparr>) rows [] w4 = (Inr (ImageAndPaths d), w5)"
    unfolding getEvent_def
    by (auto split: prod.splits sum.splits if_splits dest: rows_loop_Inl)
  from rows_loop_map[OF this] show ?thesis by auto
qed

lemma postEvent_atomic:
  assumes "postEvent (Decoded ev) w = (r, w')"
  shows "(r = JSON StatusCreated (IdMap ''EventID'' (next_event_id w)) \<and>
       db w' = (db w)\<lparr>events := events (db w) @
          [\<lparr>EventID = next_event_id w, AccountID = 1, Title = NewEvent.Title ev,
            Description = NewEvent.Description ev, EventDate = NewEvent.EventDate ev\<rparr>]\<rparr> \<or>
       status r \<noteq> StatusCreated \<and> db w' = db w)"
  using assms
  by (auto simp: postEvent_def store_steps split: option.splits if_splits)

lemma postEvent_quiet:
  assumes "postEvent (Decoded ev) w = (r, w')"
  shows "(quiet 4 w \<and> fits_int (next_event_id w) \<longrightarrow>
         r = JSON StatusCreated (IdMap ''EventID'' (next_event_id w)) \<and>
         calls w' = calls w @
           [Begin, Exec (InsertEvent (NewEvent.Title ev) (NewEvent.Description ev) (NewEvent.EventDate ev)),
            SelectLastInsertId, Commit] \<and>
         tx w' = None)"
  using assms
  by (auto simp: postEvent_def store_steps small_numerals)

lemma postEvent_first_fault:
  assumes "postEvent (Decoded ev) w = (r, w')"
  shows "(k < 4 \<and> quiet k w \<and> fault_at k w = Some e \<and>
       (k = 3 \<longrightarrow> fits_int (next_event_id w)) \<longrightarrow>
         r = (if k = 1 \<and> is_duplicate_entry e then String StatusConflict ''duplicated: event''
              else NoContent StatusInternalServerError) \<and>
         db w' = db w \<and>
         calls w' = calls w @
           (if k = 0 then [Begin]
            else if k = 1 then
              [Begin, Exec (InsertEvent (NewEvent.Title ev) (NewEvent.Description ev) (NewEvent.EventDate ev)), Rollback]
            else if k = 2 then
              [Begin, Exec (InsertEvent (NewEvent.Title ev) (NewEvent.Description ev) (NewEvent.EventDate ev)),
               SelectLastInsertId, Rollback]
            else
              [Begin, Exec (InsertEvent (NewEvent.Title ev) (NewEvent.Description ev) (NewEvent.EventDate ev)),
               SelectLastInsertId, Commit]) \<and>
         tx w' = (if k = 0 then tx w else None))"
proof (intro impI, elim conjE)
  assume k: "k < 4" and rest: "quiet k w" "fault_at k w = Some e"
    "k = 3 \<longrightarrow> fits_int (next_event_id w)"
  from below_4[OF k] assms rest
  show "r = (if k = 1 \<and> is_duplicate_entry e then String StatusConflict ''duplicated: event''
              else NoContent StatusInternalServerError) \<and>
         db w' = db w \<and>
         calls w' = calls w @ (if k = 0 then [Begin]
            else if k = 1 then
              [Begin, Exec (InsertEvent (NewEvent.Title ev) (NewEvent.Description ev) (NewEvent.EventDate ev)), Rollback]
            else if k = 2 then
              [Begin, Exec (InsertEvent (NewEvent.Title ev) (NewEvent.Description ev) (NewEvent.EventDate ev)),
               SelectLastInsertId, Rollback]
            else
              [Begin, Exec (InsertEvent (NewEvent.Title ev) (NewEvent.Description ev) (NewEvent.EventDate ev)),
               SelectLastInsertId, Commit]) \<and>
         tx w' = (if k = 0 then tx w else None)"
    by (elim disjE) (auto simp: postEvent_def store_steps fault_at_def small_numerals)
qed

lemma postEvent_out_of_range:
  assumes "postEvent (Decoded ev) w = (r, w')"
  shows "(quiet 3 w \<and> \<not> fits_int (next_event_id w) \<longrightarrow>
         r = NoContent StatusInternalServerError \<and> db w' = db w \<and>
         calls w' = calls w @
           [Begin, Exec (InsertEvent (NewEvent.Title ev) (NewEvent.Description ev) (NewEvent.EventDate ev)),
            SelectLastInsertId, Rollback] \<and>
         tx w' = None)"
  using assms
  by (auto simp: postEvent_def store_steps small_numerals)

lemma fresh_world_counters [simp]:
  "next_event_id (fresh_world fs) = 1" "next_person_id (fresh_world fs) = 1"
  "next_image_id (fresh_world fs) = 1" "last_insert_id (fresh_world fs) = 0"
  by (simp_all add: fresh_world_def)

lemma gallery_world_fields [simp]:
  "db gallery_world = gallery_db" "tx gallery_world = None" "faults gallery_world = []"
  "calls gallery_world = []" "coerce gallery_world = decimal_value"
  by (simp_all add: gallery_world_def)

lemma decimal_value_examples [simp]:
  "decimal_value ''7'' = 7" "decimal_value ''8'' = 8" "decimal_value ''9'' = 9"
  "decimal_value ''1'' = 1" "decimal_value ''12'' = 12" "decimal_value ''99'' = 99"
  by (simp_all add: decimal_value_def)

lemma Sprintf_d_12: "Sprintf_d 12 = ''12''"
  by code_simp

section \<open>Uploads\<close>

text \<open>
  C2. An upload whose size exceeds 1,000,000 bytes is answered 400 "file exceed 1MByte"
  and the world is left exactly as it was: no call reaches the store (no transaction is
  begun, no row inserted) and the disk is untouched.
\<close>

theorem upload_too_large:
  "Size file > 1000000 \<Longrightarrow>
     uploadImage (Some file) w = (String StatusBadRequest ''file exceed 1MByte'', w)"
  by (simp add: uploadImage_def Let_def)

theorem upload_too_large_witness:
  "Size large_upload > 1000000 \<and>
   uploadImage (Some large_upload) gallery_world =
     (String StatusBadRequest ''file exceed 1MByte'', gallery_world)"
  using upload_too_large[of large_upload gallery_world]
  by (simp add: large_upload_def)

text \<open>
  C9. For an upload of at most 1,000,000 bytes, whatever \<open>file.Open()\<close> returned
  (\<open>src\<close> is \<open>None\<close> when it failed): the first call to the store is \<open>Begin\<close>, and
  when the store accepts it the next call is the insert of the image row.
\<close>

theorem upload_open_error_unchecked:
  assumes "Size file \<le> 1000000"
  shows "take 1 (new_calls w (snd (uploadImage (Some (file\<lparr>Open := src\<rparr>)) w))) = [Begin] \<and>
     (fault_at 0 w = None \<longrightarrow>
        take 2 (new_calls w (snd (uploadImage (Some (file\<lparr>Open := src\<rparr>)) w))) =
          [Begin, Exec (InsertImage (Filename file) (Header_Content_Type file))])"
proof -
  let ?a = "answer (faults w)"
  consider (at_begin) e where "?a 0 = Some e"
    | (at_insert) e where "?a 0 = None" "?a (Suc 0) = Some e"
    | (at_last_id) e where "?a 0 = None" "?a (Suc 0) = None" "?a (Suc (Suc 0)) = Some e"
    | (at_create) e where "?a 0 = None" "?a (Suc 0) = None" "?a (Suc (Suc 0)) = None"
        "?a (Suc (Suc (Suc 0))) = Some e"
    | (later) "?a 0 = None" "?a (Suc 0) = None" "?a (Suc (Suc 0)) = None"
        "?a (Suc (Suc (Suc 0))) = None"
    by (cases "?a 0"; cases "?a (Suc 0)"; cases "?a (Suc (Suc 0))"; cases "?a (Suc (Suc (Suc 0)))") auto
  then show ?thesis
  proof cases
    case at_begin
    with assms show ?thesis
      by (simp add: uploadImage_def store_steps new_calls_def fault_at_def)
  next
    case at_insert
    with assms show ?thesis
      by (simp add: uploadImage_def store_steps new_calls_def fault_at_def)
  next
    case at_last_id
    with assms show ?thesis
      by (simp add: uploadImage_def store_steps new_calls_def fault_at_def)
  next
    case at_create
    with assms show ?thesis
      by (simp add: uploadImage_def store_steps new_calls_def fault_at_def)
  next
    case later
    with assms show ?thesis
      by (simp add: uploadImage_def store_steps new_calls_def fault_at_def
            split: option.splits)
  qed
qed

theorem upload_open_error_unchecked_witness:
  "take 2 (new_calls gallery_world (snd (uploadImage (Some (small_upload None)) gallery_world))) =
     [Begin, Exec (InsertImage ''cat.jpg'' ''image/jpeg'')] \<and>
   take 2 (new_calls gallery_world (snd (uploadImage (Some (small_upload (Some ''abc''))) gallery_world))) =
     [Begin, Exec (InsertImage ''cat.jpg'' ''image/jpeg'')]"
  using upload_open_error_unchecked[of "small_upload None" gallery_world None]
    upload_open_error_unchecked[of "small_upload None" gallery_world "Some ''abc''"]
  by (simp add: small_upload_def gallery_world_def fault_at_def)

section \<open>Creating entities\<close>

text \<open>
  C4. The three create handlers, in any world and for any answers of the store. The calls
  that can fail are the begin, the insert, the read of the id and the commit, numbered
  from 0; for \<open>uploadImage\<close> they are the begin, the insert, the read of the id,
  \<open>os.Create\<close>, \<open>io.Copy\<close> and the commit. For each handler:
  \<^item> either the answer is 201 with the id the store generated and the committed table
    has grown by exactly the row with that id, or the answer is not 201 and the
    committed content is unchanged;
  \<^item> when every call succeeds and the generated id fits the handler's \<open>int\<close>, the calls
    to the store are \<open>Begin\<close>, the insert, \<open>SELECT LAST_INSERT_ID()\<close> on the
    transaction, and \<open>Commit\<close>, and no transaction is left open;
  \<^item> when call number \<open>k\<close> is the first to fail, with the error \<open>e\<close>, the answer is
    409 if the failing call is the insert and \<open>e\<close> is a duplicate entry, and 500 for
    any other error or step; nothing is committed. If the begin failed there is no
    transaction and no further call. If a later call before the commit failed, the last
    call to the store is \<open>Rollback\<close> and the transaction is closed. If the commit
    failed it is the last call and the transaction is closed;
  \<^item> when the store answers the first three calls and the generated id does not fit the
    handler's \<open>int\<close>, the answer is 500, the last call is \<open>Rollback\<close>, the transaction
    is closed and nothing is committed.
  For \<open>uploadImage\<close> the parts on the calls are stated for an upload within the size
  limit, and of these the success and the first failure for one whose \<open>Open\<close>
  succeeded. When its \<open>Open\<close> had failed and the store and \<open>os.Create\<close> succeed, the
  copy fails: the answer is 500, the last call is \<open>Rollback\<close>, the transaction is closed
  and nothing is committed.
\<close>

theorem create_in_one_transaction:
  "(case postEvent (Decoded ev) w of (r, w') \<Rightarrow>
      (r = JSON StatusCreated (IdMap ''EventID'' (next_event_id w)) \<and>
       db w' = (db w)\<lparr>events := events (db w) @
          [\<lparr>EventID = next_event_id w, AccountID = 1, Title = NewEvent.Title ev,
            Description = NewEvent.Description ev, EventDate = NewEvent.EventDate ev\<rparr>]\<rparr> \<or>
       status r \<noteq> StatusCreated \<and> db w' = db w) \<and>
      (quiet 4 w \<and> fits_int (next_event_id w) \<longrightarrow>
         r = JSON StatusCreated (IdMap ''EventID'' (next_event_id w)) \<and>
         calls w' = calls w @
           [Begin, Exec (InsertEvent (NewEvent.Title ev) (NewEvent.Description ev) (NewEvent.EventDate ev)),
            SelectLastInsertId, Commit] \<and>
         tx w' = None) \<and>
      (k1 < 4 \<and> quiet k1 w \<and> fault_at k1 w = Some e1 \<and>
       (k1 = 3 \<longrightarrow> fits_int (next_event_id w)) \<longrightarrow>
         r = (if k1 = 1 \<and> is_duplicate_entry e1 then String StatusConflict ''duplicated: event''
              else NoContent StatusInternalServerError) \<and>
         db w' = db w \<and>
         calls w' = calls w @
           (if k1 = 0 then [Begin]
            else if k1 = 1 then
              [Begin, Exec (InsertEvent (NewEvent.Title ev) (NewEvent.Description ev) (NewEvent.EventDate ev)), Rollback]
            else if k1 = 2 then
              [Begin, Exec (InsertEvent (NewEvent.Title ev) (NewEvent.Description ev) (NewEvent.EventDate ev)),
               SelectLastInsertId, Rollback]
            else
              [Begin, Exec (InsertEvent (NewEvent.Title ev) (NewEvent.Description ev) (NewEvent.EventDate ev)),
               SelectLastInsertId, Commit]) \<and>
         tx w' = (if k1 = 0 then tx w else None)) \<and>
      (quiet 3 w \<and> \<not> fits_int (next_event_id w) \<longrightarrow>
         r = NoContent StatusInternalServerError \<and> db w' = db w \<and>
         calls w' = calls w @
           [Begin, Exec (InsertEvent (NewEvent.Title ev) (NewEvent.Description ev) (NewEvent.EventDate ev)),
            SelectLastInsertId, Rollback] \<and>
         tx w' = None)) \<and>
   (case postPerson (Decoded p) w of (r, w') \<Rightarrow>
      (r = JSON StatusCreated (IdMap ''PersonID'' (next_person_id w)) \<and>
       db w' = (db w)\<lparr>persons := persons (db w) @
          [\<lparr>PersonId = next_person_id w, FirstName = FirstName p, LastName = LastName p\<rparr>]\<rparr> \<or>
       status r \<noteq> StatusCreated \<and> db w' = db w) \<and>
      (quiet 4 w \<and> fits_int (next_person_id w) \<longrightarrow>
         r = JSON StatusCreated (IdMap ''PersonID'' (next_person_id w)) \<and>
         calls w' = calls w @
           [Begin, Exec (InsertPerson (FirstName p) (LastName p)),
            SelectLastInsertId, Commit] \<and>
         tx w' = None) \<and>
      (k2 < 4 \<and> quiet k2 w \<and> fault_at k2 w = Some e2 \<and>
       (k2 = 3 \<longrightarrow> fits_int (next_person_id w)) \<longrightarrow>
         r = (if k2 = 1 \<and> is_duplicate_entry e2 then String StatusConflict ''duplicated: person''
              else NoContent StatusInternalServerError) \<and>
         db w' = db w \<and>
         calls w' = calls w @
           (if k2 = 0 then [Begin]
            else if k2 = 1 then
              [Begin, Exec (InsertPerson (FirstName p) (LastName p)), Rollback]
            else if k2 = 2 then
              [Begin, Exec (InsertPerson (FirstName p) (LastName p)),
               SelectLastInsertId, Rollback]
            else
              [Begin, Exec (InsertPerson (FirstName p) (LastName p)),
               SelectLastInsertId, Commit]) \<and>
         tx w' = (if k2 = 0 then tx w else None)) \<and>
      (quiet 3 w \<and> \<not> fits_int (next_person_id w) \<longrightarrow>
         r = NoContent StatusInternalServerError \<and> db w' = db w \<and>
         calls w' = calls w @
           [Begin, Exec (InsertPerson (FirstName p) (LastName p)),
            SelectLastInsertId, Rollback] \<and>
         tx w' = None)) \<and>
   (case uploadImage (Some file) w of (r, w') \<Rightarrow>
      (r = JSON StatusCreated (IdMap ''ImageID'' (next_image_id w)) \<and>
       db w' = (db w)\<lparr>images := images (db w) @
          [\<lparr>ImageId = next_image_id w, ImageName = Filename file,
            ContentType = Header_Content_Type file\<rparr>]\<rparr> \<or>
       status r \<noteq> StatusCreated \<and> db w' = db w) \<and>
      (Size file \<le> 1000000 \<and> Open file = Some content \<and> quiet 6 w \<and> fits_int (next_image_id w) \<longrightarrow>
         r = JSON StatusCreated (IdMap ''ImageID'' (next_image_id w)) \<and>
         calls w' = calls w @
           [Begin, Exec (InsertImage (Filename file) (Header_Content_Type file)),
            SelectLastInsertId, Commit] \<and>
         tx w' = None) \<and>
      (Size file \<le> 1000000 \<and> Open file = Some content \<and>
       k3 < 6 \<and> quiet k3 w \<and> fault_at k3 w = Some e3 \<and>
       (2 < k3 \<longrightarrow> fits_int (next_image_id w)) \<longrightarrow>
         r = (if k3 = 1 \<and> is_duplicate_entry e3 then String StatusConflict ''duplicated: image''
              else NoContent StatusInternalServerError) \<and>
         db w' = db w \<and>
         calls w' = calls w @
           (if k3 = 0 then [Begin]
            else if k3 = 1 then
              [Begin, Exec (InsertImage (Filename file) (Header_Content_Type file)), Rollback]
            else if k3 < 5 then
              [Begin, Exec (InsertImage (Filename file) (Header_Content_Type file)),
               SelectLastInsertId, Rollback]
            else
              [Begin, Exec (InsertImage (Filename file) (Header_Content_Type file)),
               SelectLastInsertId, Commit]) \<and>
         tx w' = (if k3 = 0 then tx w else None)) \<and>
      (Size file \<le> 1000000 \<and> quiet 3 w \<and> \<not> fits_int (next_image_id w) \<longrightarrow>
         r = NoContent StatusInternalServerError \<and> db w' = db w \<and>
         calls w' = calls w @
           [Begin, Exec (InsertImage (Filename file) (Header_Content_Type file)),
            SelectLastInsertId, Rollback] \<and>
         tx w' = None) \<and>
      (Size file \<le> 1000000 \<and> Open file = None \<and> quiet 4 w \<and>
       fits_int (next_image_id w) \<longrightarrow>
         r = NoContent StatusInternalServerError \<and> db w' = db w \<and>
         calls w' = calls w @
           [Begin, Exec (InsertImage (Filename file) (Header_Content_Type file)),
            SelectLastInsertId, Rollback] \<and>
         tx w' = None))"
proof -
  obtain r1 w1 where E: "postEvent (Decoded ev) w = (r1, w1)"
    by (cases "postEvent (Decoded ev) w")
  obtain r2 w2 where P: "postPerson (Decoded p) w = (r2, w2)"
    by (cases "postPerson (Decoded p) w")
  obtain r3 w3 where I: "uploadImage (Some file) w = (r3, w3)"
    by (cases "uploadImage (Some file) w")
  note steps = postEvent_atomic[OF E] postEvent_quiet[OF E] postEvent_first_fault[OF E, of k1 e1]
      postEvent_out_of_range[OF E]
      postPerson_atomic[OF P] postPerson_quiet[OF P] postPerson_first_fault[OF P, of k2 e2]
      postPerson_out_of_range[OF P]
      uploadImage_atomic[OF I] uploadImage_quiet[OF I, of content]
      uploadImage_first_fault[OF I, of content k3 e3] uploadImage_out_of_range[OF I]
      uploadImage_open_failed[OF I]
  show ?thesis
    unfolding E P I prod.case
    by (intro conjI steps)
qed

theorem create_in_one_transaction_witness:
  "fst (postEvent (Decoded party) (fresh_world [])) = JSON StatusCreated (IdMap ''EventID'' 1) \<and>
   calls (snd (postEvent (Decoded party) (fresh_world []))) =
     [Begin, Exec (InsertEvent ''Party'' ''At home'' 1700000000), SelectLastInsertId, Commit] \<and>
   tx (snd (postEvent (Decoded party) (fresh_world []))) = None \<and>
   fst (postPerson (Decoded ada) (fresh_world [])) = JSON StatusCreated (IdMap ''PersonID'' 1) \<and>
   fst (uploadImage (Some (small_upload (Some ''abc''))) (fresh_world [])) = JSON StatusCreated (IdMap ''ImageID'' 1) \<and>
   events (db (snd (postEvent (Decoded party) (fresh_world [])))) =
     [\<lparr>EventID = 1, AccountID = 1, Title = ''Party'', Description = ''At home'',
       EventDate = 1700000000\<rparr>] \<and>
   persons (db (snd (postPerson (Decoded ada) (fresh_world [])))) =
     [\<lparr>PersonId = 1, FirstName = ''Ada'', LastName = ''Lovelace''\<rparr>] \<and>
   images (db (snd (uploadImage (Some (small_upload (Some ''abc''))) (fresh_world [])))) =
     [\<lparr>ImageId = 1, ImageName = ''cat.jpg'', ContentType = ''image/jpeg''\<rparr>] \<and>
   fst (postEvent (Decoded party) (fresh_world [None, Some (MySQLError 1062)])) = String StatusConflict ''duplicated: event'' \<and>
   db (snd (postEvent (Decoded party) (fresh_world [None, Some (MySQLError 1062)]))) = empty_db \<and>
   calls (snd (postEvent (Decoded party) (fresh_world [None, Some (MySQLError 1062)]))) = [Begin, Exec (InsertEvent ''Party'' ''At home'' 1700000000), Rollback] \<and>
   tx (snd (postEvent (Decoded party) (fresh_world [None, Some (MySQLError 1062)]))) = None \<and>
   fst (postPerson (Decoded ada) (fresh_world [None, Some (MySQLError 1062)])) = String StatusConflict ''duplicated: person'' \<and>
   db (snd (postPerson (Decoded ada) (fresh_world [None, Some (MySQLError 1062)]))) = empty_db \<and>
   calls (snd (postPerson (Decoded ada) (fresh_world [None, Some (MySQLError 1062)]))) = [Begin, Exec (InsertPerson ''Ada'' ''Lovelace''), Rollback] \<and>
   tx (snd (postPerson (Decoded ada) (fresh_world [None, Some (MySQLError 1062)]))) = None \<and>
   fst (uploadImage (Some (small_upload (Some ''abc''))) (fresh_world [None, Some (MySQLError 1062)])) = String StatusConflict ''duplicated: image'' \<and>
   calls (snd (uploadImage (Some (small_upload (Some ''abc''))) (fresh_world [None, Some (MySQLError 1062)]))) = [Begin, Exec (InsertImage ''cat.jpg'' ''image/jpeg''), Rollback] \<and>
   tx (snd (uploadImage (Some (small_upload (Some ''abc''))) (fresh_world [None, Some (MySQLError 1062)]))) = None \<and>
   fst (uploadImage (Some (small_upload (Some ''abc''))) (fresh_world [None, None, Some ErrNoRows])) = NoContent StatusInternalServerError \<and>
   db (snd (uploadImage (Some (small_upload (Some ''abc''))) (fresh_world [None, None, Some ErrNoRows]))) = empty_db \<and>
   calls (snd (uploadImage (Some (small_upload (Some ''abc''))) (fresh_world [None, None, Some ErrNoRows]))) =
     [Begin, Exec (InsertImage ''cat.jpg'' ''image/jpeg''), SelectLastInsertId, Rollback] \<and>
   tx (snd (uploadImage (Some (small_upload (Some ''abc''))) (fresh_world [None, None, Some ErrNoRows]))) = None \<and>
   fst (postEvent (Decoded party) (fresh_world [None, None, None, Some (OtherError ''invalid connection'')])) = NoContent StatusInternalServerError \<and>
   db (snd (postEvent (Decoded party) (fresh_world [None, None, None, Some (OtherError ''invalid connection'')]))) = empty_db \<and>
   calls (snd (postEvent (Decoded party) (fresh_world [None, None, None, Some (OtherError ''invalid connection'')]))) =
     [Begin, Exec (InsertEvent ''Party'' ''At home'' 1700000000), SelectLastInsertId, Commit] \<and>
   tx (snd (postEvent (Decoded party) (fresh_world [None, None, None, Some (OtherError ''invalid connection'')]))) = None \<and>
   fst (postPerson (Decoded ada) exhausted_ids) = NoContent StatusInternalServerError \<and>
   db (snd (postPerson (Decoded ada) exhausted_ids)) = empty_db \<and>
   calls (snd (postPerson (Decoded ada) exhausted_ids)) =
     [Begin, Exec (InsertPerson ''Ada'' ''Lovelace''), SelectLastInsertId, Rollback] \<and>
   tx (snd (postPerson (Decoded ada) exhausted_ids)) = None \<and>
   fst (uploadImage (Some (small_upload None)) (fresh_world [])) = NoContent StatusInternalServerError \<and>
   db (snd (uploadImage (Some (small_upload None)) (fresh_world []))) = empty_db \<and>
   calls (snd (uploadImage (Some (small_upload None)) (fresh_world []))) =
     [Begin, Exec (InsertImage ''cat.jpg'' ''image/jpeg''), SelectLastInsertId, Rollback] \<and>
   tx (snd (uploadImage (Some (small_upload None)) (fresh_world []))) = None"
proof -
  let ?ok = "fresh_world []"
  let ?dup = "fresh_world [None, Some (MySQLError 1062)]"
  let ?lost = "fresh_world [None, None, Some ErrNoRows]"
  let ?refused = "fresh_world [None, None, None, Some (OtherError ''invalid connection'')]"
  let ?up = "Some (small_upload (Some ''abc''))"
  let ?closed = "Some (small_upload None)"
  note A = create_in_one_transaction[where w = ?ok and ev = party and p = ada
      and ?file = "small_upload (Some ''abc'')" and content = "''abc''"
      and ?k1.0 = 0 and ?k2.0 = 0 and ?k3.0 = 0 and ?e1.0 = "ErrNoRows" and ?e2.0 = "ErrNoRows"
      and ?e3.0 = "ErrNoRows", unfolded case_prod_unfold]
  note B = create_in_one_transaction[where w = ?dup and ev = party and p = ada
      and ?file = "small_upload (Some ''abc'')" and content = "''abc''"
      and ?k1.0 = 1 and ?k2.0 = 1 and ?k3.0 = 1 and ?e1.0 = "MySQLError 1062" and ?e2.0 = "MySQLError 1062"
      and ?e3.0 = "MySQLError 1062", unfolded case_prod_unfold]
  note C = create_in_one_transaction[where w = ?lost and ev = party and p = ada
      and ?file = "small_upload (Some ''abc'')" and content = "''abc''"
      and ?k1.0 = 2 and ?k2.0 = 2 and ?k3.0 = 2 and ?e1.0 = "ErrNoRows" and ?e2.0 = "ErrNoRows"
      and ?e3.0 = "ErrNoRows", unfolded case_prod_unfold]
  note D = create_in_one_transaction[where w = ?refused and ev = party and p = ada
      and ?file = "small_upload (Some ''abc'')" and content = "''abc''"
      and ?k1.0 = 3 and ?k2.0 = 3 and ?k3.0 = 3 and ?e1.0 = "OtherError ''invalid connection''" and ?e2.0 = "OtherError ''invalid connection''"
      and ?e3.0 = "OtherError ''invalid connection''", unfolded case_prod_unfold]
  note E = create_in_one_transaction[where w = exhausted_ids and ev = party and p = ada
      and ?file = "small_upload (Some ''abc'')" and content = "''abc''"
      and ?k1.0 = 0 and ?k2.0 = 0 and ?k3.0 = 0 and ?e1.0 = "ErrNoRows" and ?e2.0 = "ErrNoRows"
      and ?e3.0 = "ErrNoRows", unfolded case_prod_unfold]
  note F = create_in_one_transaction[where w = ?ok and ev = party and p = ada
      and ?file = "small_upload None" and content = "''abc''"
      and ?k1.0 = 0 and ?k2.0 = 0 and ?k3.0 = 0 and ?e1.0 = "ErrNoRows" and ?e2.0 = "ErrNoRows"
      and ?e3.0 = "ErrNoRows", unfolded case_prod_unfold]
  from A have a:
    "fst (postEvent (Decoded party) ?ok) = JSON StatusCreated (IdMap ''EventID'' 1)"
    "calls (snd (postEvent (Decoded party) ?ok)) =
       [Begin, Exec (InsertEvent ''Party'' ''At home'' 1700000000), SelectLastInsertId, Commit]"
    "tx (snd (postEvent (Decoded party) ?ok)) = None"
    "fst (postPerson (Decoded ada) ?ok) = JSON StatusCreated (IdMap ''PersonID'' 1)"
    "fst (uploadImage ?up ?ok) = JSON StatusCreated (IdMap ''ImageID'' 1)"
    by (simp_all add: quiet_def fault_at_def answer_def fits_int_def small_upload_def mysqlErrNumDuplicateEntry_def party_def ada_def)
  from A a have a':
    "events (db (snd (postEvent (Decoded party) ?ok))) =
       [\<lparr>EventID = 1, AccountID = 1, Title = ''Party'', Description = ''At home'',
         EventDate = 1700000000\<rparr>]"
    "persons (db (snd (postPerson (Decoded ada) ?ok))) =
       [\<lparr>PersonId = 1, FirstName = ''Ada'', LastName = ''Lovelace''\<rparr>]"
    "images (db (snd (uploadImage ?up ?ok))) =
       [\<lparr>ImageId = 1, ImageName = ''cat.jpg'', ContentType = ''image/jpeg''\<rparr>]"
    by (simp_all add: party_def ada_def small_upload_def empty_db_def)
  from B have b:
    "fst (postEvent (Decoded party) ?dup) = String StatusConflict ''duplicated: event''"
    "db (snd (postEvent (Decoded party) ?dup)) = empty_db"
    "calls (snd (postEvent (Decoded party) ?dup)) = [Begin, Exec (InsertEvent ''Party'' ''At home'' 1700000000), Rollback]"
    "tx (snd (postEvent (Decoded party) ?dup)) = None"
    "fst (postPerson (Decoded ada) ?dup) = String StatusConflict ''duplicated: person''"
    "db (snd (postPerson (Decoded ada) ?dup)) = empty_db"
    "calls (snd (postPerson (Decoded ada) ?dup)) = [Begin, Exec (InsertPerson ''Ada'' ''Lovelace''), Rollback]"
    "tx (snd (postPerson (Decoded ada) ?dup)) = None"
    "fst (uploadImage ?up ?dup) = String StatusConflict ''duplicated: image''"
    "calls (snd (uploadImage ?up ?dup)) = [Begin, Exec (InsertImage ''cat.jpg'' ''image/jpeg''), Rollback]"
    "tx (snd (uploadImage ?up ?dup)) = None"
    by (simp_all add: quiet_def fault_at_def answer_def fits_int_def small_upload_def mysqlErrNumDuplicateEntry_def party_def ada_def)
  from C have c:
    "fst (uploadImage ?up ?lost) = NoContent StatusInternalServerError"
    "db (snd (uploadImage ?up ?lost)) = empty_db"
    "calls (snd (uploadImage ?up ?lost)) =
       [Begin, Exec (InsertImage ''cat.jpg'' ''image/jpeg''), SelectLastInsertId, Rollback]"
    "tx (snd (uploadImage ?up ?lost)) = None"
    by (simp_all add: quiet_def fault_at_def answer_def fits_int_def small_upload_def mysqlErrNumDuplicateEntry_def)
  from D have d:
    "fst (postEvent (Decoded party) ?refused) = NoContent StatusInternalServerError"
    "db (snd (postEvent (Decoded party) ?refused)) = empty_db"
    "calls (snd (postEvent (Decoded party) ?refused)) =
       [Begin, Exec (InsertEvent ''Party'' ''At home'' 1700000000), SelectLastInsertId, Commit]"
    "tx (snd (postEvent (Decoded party) ?refused)) = None"
    by (simp_all add: quiet_def fault_at_def answer_def fits_int_def small_upload_def mysqlErrNumDuplicateEntry_def party_def)
  from E have e:
    "fst (postPerson (Decoded ada) exhausted_ids) = NoContent StatusInternalServerError"
    "db (snd (postPerson (Decoded ada) exhausted_ids)) = empty_db"
    "calls (snd (postPerson (Decoded ada) exhausted_ids)) =
       [Begin, Exec (InsertPerson ''Ada'' ''Lovelace''), SelectLastInsertId, Rollback]"
    "tx (snd (postPerson (Decoded ada) exhausted_ids)) = None"
    by (simp_all add: quiet_def fault_at_def answer_def fits_int_def small_upload_def mysqlErrNumDuplicateEntry_def ada_def exhausted_ids_def)
  from F have f:
    "fst (uploadImage ?closed ?ok) = NoContent StatusInternalServerError"
    "db (snd (uploadImage ?closed ?ok)) = empty_db"
    "calls (snd (uploadImage ?closed ?ok)) =
       [Begin, Exec (InsertImage ''cat.jpg'' ''image/jpeg''), SelectLastInsertId, Rollback]"
    "tx (snd (uploadImage ?closed ?ok)) = None"
    by (simp_all add: quiet_def fault_at_def answer_def fits_int_def small_upload_def mysqlErrNumDuplicateEntry_def)
  from a a' b c d e f show ?thesis by simp
qed

section \<open>Deleting entities\<close>

text \<open>
  C5. The three delete handlers. When the store accepts the begin, the delete and the
  commit, the answer is 204, whether or not a row has the id. After a 204 the rows with
  that id are gone from the entity's table, every other table, the two tagging tables
  among them, is as before, and a get of the same id that the store answers is 404.
\<close>

theorem delete_then_get_not_found:
  "(case deleteEvent eventID w of (r, w') \<Rightarrow>
      (quiet 3 w \<longrightarrow> r = NoContent StatusNoContent) \<and>
      (r = NoContent StatusNoContent \<longrightarrow>
         events (db w') = filter (\<lambda>r. EventID r \<noteq> coerce w eventID) (events (db w)) \<and>
         persons (db w') = persons (db w) \<and> images (db w') = images (db w) \<and>
         event_person_tagging (db w') = event_person_tagging (db w) \<and>
         event_image_tagging (db w') = event_image_tagging (db w) \<and>
         (fault_at 0 w' = None \<longrightarrow>
            fst (getEvent eventID w') = String StatusNotFound ''not found: event''))) \<and>
   (case deletePerson personID w of (r, w') \<Rightarrow>
      (quiet 3 w \<longrightarrow> r = NoContent StatusNoContent) \<and>
      (r = NoContent StatusNoContent \<longrightarrow>
         persons (db w') = filter (\<lambda>r. PersonId r \<noteq> coerce w personID) (persons (db w)) \<and>
         events (db w') = events (db w) \<and> images (db w') = images (db w) \<and>
         event_person_tagging (db w') = event_person_tagging (db w) \<and>
         event_image_tagging (db w') = event_image_tagging (db w) \<and>
         (fault_at 0 w' = None \<longrightarrow>
            fst (getPerson personID w') = String StatusNotFound ''not found: person''))) \<and>
   (case deleteImage imageID w of (r, w') \<Rightarrow>
      (quiet 3 w \<longrightarrow> r = NoContent StatusNoContent) \<and>
      (r = NoContent StatusNoContent \<longrightarrow>
         images (db w') = filter (\<lambda>r. ImageId r \<noteq> coerce w imageID) (images (db w)) \<and>
         events (db w') = events (db w) \<and> persons (db w') = persons (db w) \<and>
         event_person_tagging (db w') = event_person_tagging (db w) \<and>
         event_image_tagging (db w') = event_image_tagging (db w) \<and>
         (fault_at 0 w' = None \<longrightarrow>
            fst (getImage imageID w') = String StatusNotFound ''not found: image'')))"
proof -
  obtain r1 w1 where E: "deleteEvent eventID w = (r1, w1)"
    by (cases "deleteEvent eventID w")
  obtain r2 w2 where P: "deletePerson personID w = (r2, w2)"
    by (cases "deletePerson personID w")
  obtain r3 w3 where I: "deleteImage imageID w = (r3, w3)"
    by (cases "deleteImage imageID w")
  show ?thesis
    unfolding E P I prod.case
    using deleteEvent_then_get[OF E] deletePerson_then_get[OF P] deleteImage_then_get[OF I]
    by (intro conjI) (elim conjE, assumption)+
qed

theorem delete_then_get_not_found_witness:
  "fst (deleteEvent ''7'' gallery_world) = NoContent StatusNoContent \<and>
   events (db (snd (deleteEvent ''7'' gallery_world))) =
     [\<lparr>EventID = 8, AccountID = 1, Title = ''Trip'', Description = [], EventDate = 0\<rparr>] \<and>
   event_person_tagging (db (snd (deleteEvent ''7'' gallery_world))) = [(7, 1)] \<and>
   event_image_tagging (db (snd (deleteEvent ''7'' gallery_world))) = [(7, 12)] \<and>
   fst (getEvent ''7'' (snd (deleteEvent ''7'' gallery_world))) =
     String StatusNotFound ''not found: event'' \<and>
   fst (deletePerson ''99'' gallery_world) = NoContent StatusNoContent \<and>
   persons (db (snd (deletePerson ''99'' gallery_world))) = persons gallery_db \<and>
   fst (getPerson ''99'' (snd (deletePerson ''99'' gallery_world))) =
     String StatusNotFound ''not found: person'' \<and>
   fst (deleteImage ''12'' gallery_world) = NoContent StatusNoContent \<and>
   images (db (snd (deleteImage ''12'' gallery_world))) = [] \<and>
   fst (getImage ''12'' (snd (deleteImage ''12'' gallery_world))) =
     String StatusNotFound ''not found: image''"
proof -
  note A = delete_then_get_not_found[where w = gallery_world and eventID = "''7''"
      and personID = "''99''" and imageID = "''12''", unfolded case_prod_unfold]
  have f: "faults (snd (deleteEvent ''7'' gallery_world)) = []"
    "faults (snd (deletePerson ''99'' gallery_world)) = []"
    "faults (snd (deleteImage ''12'' gallery_world)) = []"
    by (simp_all add: deleteEvent_def deletePerson_def deleteImage_def store_steps)
  from A f show ?thesis
    by (simp add: quiet_def fault_at_def gallery_db_def)
qed

section \<open>The detail of an event\<close>

text \<open>
  C3. \<open>getEvent\<close>, when the store answers its three calls (the event, the tagged
  persons, the tagged images): for an id whose event row exists and that no tagging row
  names, the answer is 200 with that event and empty person and image sequences; for an
  id with no event row (and an answered first call) the answer is 404
  "not found: event". The two sequences are the slices the handler never appended to.
\<close>

theorem event_detail_untagged:
  "(quiet 3 w \<and> find (\<lambda>r. EventID r = coerce w eventID) (events (db w)) = Some ev \<and>
    (\<forall>t \<in> set (event_person_tagging (db w)). fst t \<noteq> coerce w eventID) \<and>
    (\<forall>t \<in> set (event_image_tagging (db w)). fst t \<noteq> coerce w eventID) \<longrightarrow>
      fst (getEvent eventID w) =
        JSON StatusOK (EventDatailJSON \<lparr>Event = ev, Persons = [], ImageAndPaths = []\<rparr>)) \<and>
   (fault_at 0 w = None \<and> find (\<lambda>r. EventID r = coerce w eventID) (events (db w)) = None \<longrightarrow>
      fst (getEvent eventID w) = String StatusNotFound ''not found: event'')"
  using getEvent_untagged[of w eventID ev] getEvent_absent[of w eventID]
  by blast

theorem event_detail_untagged_witness:
  "fst (getEvent ''8'' gallery_world) =
     JSON StatusOK (EventDatailJSON
       \<lparr>Event = \<lparr>EventID = 8, AccountID = 1, Title = ''Trip'', Description = [], EventDate = 0\<rparr>,
        Persons = [], ImageAndPaths = []\<rparr>) \<and>
   fst (getEvent ''9'' gallery_world) = String StatusNotFound ''not found: event''"
  using event_detail_untagged[of gallery_world "''8''"
      "\<lparr>EventID = 8, AccountID = 1, Title = ''Trip'', Description = [], EventDate = 0\<rparr>"]
    event_detail_untagged[of gallery_world "''9''"]
  by (simp add: quiet_def fault_at_def gallery_db_def)

lemma getImage_path:
  assumes "fst (getImage imageID w) = JSON code (ImageAndPathJSON ip)"
  shows "ImagePath ip = ''/images/'' @ Sprintf_d (ImageId (Image ip)) @ ''.png''"
  using assms
  by (auto simp: getImage_def split: prod.splits sum.splits if_splits)

lemma rows_step [simp]:
  "rows_StructScan row w = (case answer (faults w) 0 of
       Some e \<Rightarrow> (Inl e, w\<lparr>faults := tl (faults w)\<rparr>)
     | None \<Rightarrow> (Inr row, w\<lparr>faults := tl (faults w)\<rparr>))"
  by (simp add: rows_StructScan_def next_fault_answer split: option.splits)

text \<open>
  C8. Whatever the store holds and answers: every image in a detail that \<open>getEvent\<close>
  returns, and the image that \<open>getImage\<close> returns, carries the path \<open>/images/\<close>, the
  decimal id, \<open>.png\<close>. The path is made from the id alone; the stored MIME type has no
  part in it.
\<close>

theorem image_path_from_id:
  "(fst (getEvent eventID w) = JSON code (EventDatailJSON d) \<longrightarrow>
      (\<forall>ip \<in> set (ImageAndPaths d).
         ImagePath ip = ''/images/'' @ Sprintf_d (ImageId (Image ip)) @ ''.png'')) \<and>
   (fst (getImage imageID w) = JSON code' (ImageAndPathJSON ip') \<longrightarrow>
      ImagePath ip' = ''/images/'' @ Sprintf_d (ImageId (Image ip')) @ ''.png'')"
  using getEvent_paths[of eventID w code d "snd (getEvent eventID w)"] getImage_path[of imageID w code' ip']
  by (metis prod.collapse)

theorem image_path_from_id_witness:
  "fst (getEvent ''7'' gallery_world) = JSON StatusOK (EventDatailJSON party_detail) \<and>
   map ImagePath (ImageAndPaths party_detail) =
     map (\<lambda>ip. ''/images/'' @ Sprintf_d (ImageId (Image ip)) @ ''.png'') (ImageAndPaths party_detail) \<and>
   fst (getImage ''12'' gallery_world) = JSON StatusOK (ImageAndPathJSON (hd (ImageAndPaths party_detail))) \<and>
   ImagePath (hd (ImageAndPaths party_detail)) =
     ''/images/'' @ Sprintf_d (ImageId (Image (hd (ImageAndPaths party_detail)))) @ ''.png''"
proof -
  have e: "fst (getEvent ''7'' gallery_world) = JSON StatusOK (EventDatailJSON party_detail)"
    by (simp add: getEvent_def db_Get_event_full db_Queryx_persons_of_event_full
          db_Queryx_images_of_event_full gallery_db_def party_detail_def Sprintf_d_12)
  have i: "fst (getImage ''12'' gallery_world) =
      JSON StatusOK (ImageAndPathJSON (hd (ImageAndPaths party_detail)))"
    by (simp add: getImage_def db_Get_image_full gallery_db_def party_detail_def Sprintf_d_12)
  from image_path_from_id[where w = gallery_world and eventID = "''7''" and imageID = "''12''"
      and code = StatusOK and code' = StatusOK and d = party_detail
      and ip' = "hd (ImageAndPaths party_detail)"] e i
  show ?thesis
    by (simp add: party_detail_def)
qed

section \<open>Bodies that cannot be decoded\<close>

text \<open>
  What the four handlers that bind a body share on a body that cannot be decoded: they go
  on with what the decoder left in the zero-valued structure, as on a decoded body of
  that value, and none of them answers 400.
\<close>

lemma tx_Exec_logs:
  "tx_Exec s (w\<lparr>logs := l\<rparr>) = (fst (tx_Exec s w), (snd (tx_Exec s w))\<lparr>logs := l\<rparr>)"
  by (cases s) (simp_all add: tx_Exec_full split: option.splits)

lemma db_Beginx_logs:
  "db_Beginx (w\<lparr>logs := l\<rparr>) = (fst (db_Beginx w), (snd (db_Beginx w))\<lparr>logs := l\<rparr>)"
  by (simp add: db_Beginx_def next_fault_answer record_call_def split: option.splits)

lemma tx_Commit_logs:
  "tx_Commit (w\<lparr>logs := l\<rparr>) = (fst (tx_Commit w), (snd (tx_Commit w))\<lparr>logs := l\<rparr>)"
  by (simp add: tx_Commit_def next_fault_answer record_call_def split: option.splits)

lemma bindEventPersons_loop_logs:
  "\<exists>l'. bindEventPersons_loop eventID ps (w\<lparr>logs := l\<rparr>) =
     (fst (bindEventPersons_loop eventID ps w), (snd (bindEventPersons_loop eventID ps w))\<lparr>logs := l'\<rparr>)"
proof (induction ps arbitrary: w l)
  case Nil
  show ?case by (intro exI[of _ l]) simp
next
  case (Cons person ps)
  obtain r w1 where X: "tx_Exec (InsertEventPerson eventID (PersonId person)) w = (r, w1)"
    by (cases "tx_Exec (InsertEventPerson eventID (PersonId person)) w")
  show ?case
  proof (cases r)
    case None
    with Cons.IH[where w = w1 and l = l] X show ?thesis
      by (simp add: tx_Exec_logs)
  next
    case (Some err)
    with X show ?thesis
      by (cases "is_duplicate_entry err")
         (simp_all add: tx_Exec_logs Errorf_def exI[of _ l] exI[of _ "l @ [''db error: %v'']"])
  qed
qed

lemma bindEventPersons_malformed:
  "fst (bindEventPersons eventID (Malformed h) w) = fst (bindEventPersons eventID (Decoded (h [])) w)"
proof -
  obtain b w3 where B: "db_Beginx w = (b, w3)"
    by (cases "db_Beginx w")
  obtain r4 w4 where R: "bindEventPersons_loop eventID (h []) w3 = (r4, w4)"
    by (cases "bindEventPersons_loop eventID (h []) w3")
  obtain l1 where L1: "bindEventPersons_loop eventID (h [])
      (w3\<lparr>logs := logs w @ [''info: enevt_id %v'']\<rparr>) = (r4, w4\<lparr>logs := l1\<rparr>)"
    using bindEventPersons_loop_logs[where eventID = eventID and ps = "h []" and w = w3
        and l = "logs w @ [''info: enevt_id %v'']"] R
    by auto
  obtain l2 where L2: "bindEventPersons_loop eventID (h [])
      (w3\<lparr>logs := logs w @ [''info: enevt_id %v'', ''Bind error: %v'']\<rparr>) = (r4, w4\<lparr>logs := l2\<rparr>)"
    using bindEventPersons_loop_logs[where eventID = eventID and ps = "h []" and w = w3
        and l = "logs w @ [''info: enevt_id %v'', ''Bind error: %v'']"] R
    by auto
  show ?thesis
    using B L1 L2
    by (simp add: bindEventPersons_def Errorf_def db_Beginx_logs tx_Commit_logs defer_Rollback_def
          Let_def split: option.splits)
qed

lemma bindEventPersons_loop_status:
  "bindEventPersons_loop eventID ps w = (Some r, w') \<Longrightarrow>
     r = String StatusConflict ''duplicated: bind'' \<or> r = NoContent StatusInternalServerError"
  by (induction ps arbitrary: w)
     (auto simp: Let_def split: prod.splits option.splits if_splits)

lemma bindEventPersons_never_400:
  "status (fst (bindEventPersons eventID (Decoded ps) w)) \<noteq> StatusBadRequest"
proof -
  obtain b w3 where B: "db_Beginx (Errorf ''info: enevt_id %v'' w) = (b, w3)"
    by (cases "db_Beginx (Errorf ''info: enevt_id %v'' w)")
  obtain r4 w4 where R: "bindEventPersons_loop eventID ps w3 = (r4, w4)"
    by (cases "bindEventPersons_loop eventID ps w3")
  obtain c w5 where C: "tx_Commit w4 = (c, w5)"
    by (cases "tx_Commit w4")
  from bindEventPersons_loop_status[of eventID ps w3 _ w4] R
  have "r4 = None \<or> r4 = Some (String StatusConflict ''duplicated: bind'') \<or>
      r4 = Some (NoContent StatusInternalServerError)"
    by (cases r4) auto
  with B R C show ?thesis
    by (auto simp: bindEventPersons_def defer_Rollback_def Let_def split: option.splits)
qed

lemma bindEventImages_loop_logs:
  "\<exists>l'. bindEventImages_loop eventID ps (w\<lparr>logs := l\<rparr>) =
     (fst (bindEventImages_loop eventID ps w), (snd (bindEventImages_loop eventID ps w))\<lparr>logs := l'\<rparr>)"
proof (induction ps arbitrary: w l)
  case Nil
  show ?case by (intro exI[of _ l]) simp
next
  case (Cons image' ps)
  obtain r w1 where X: "tx_Exec (InsertEventImage eventID (ImageId image')) w = (r, w1)"
    by (cases "tx_Exec (InsertEventImage eventID (ImageId image')) w")
  show ?case
  proof (cases r)
    case None
    with Cons.IH[where w = w1 and l = l] X show ?thesis
      by (simp add: tx_Exec_logs)
  next
    case (Some err)
    with X show ?thesis
      by (cases "is_duplicate_entry err")
         (simp_all add: tx_Exec_logs Errorf_def exI[of _ l] exI[of _ "l @ [''db error: %v'']"])
  qed
qed

lemma bindEventImages_malformed:
  "fst (bindEventImages eventID (Malformed h) w) = fst (bindEventImages eventID (Decoded (h [])) w)"
proof -
  obtain b w3 where B: "db_Beginx w = (b, w3)"
    by (cases "db_Beginx w")
  obtain r4 w4 where R: "bindEventImages_loop eventID (h []) w3 = (r4, w4)"
    by (cases "bindEventImages_loop eventID (h []) w3")
  obtain l1 where L1: "bindEventImages_loop eventID (h [])
      (w3\<lparr>logs := logs w @ [''info: enevt_id %v'']\<rparr>) = (r4, w4\<lparr>logs := l1\<rparr>)"
    using bindEventImages_loop_logs[where eventID = eventID and ps = "h []" and w = w3
        and l = "logs w @ [''info: enevt_id %v'']"] R
    by auto
  obtain l2 where L2: "bindEventImages_loop eventID (h [])
      (w3\<lparr>logs := logs w @ [''info: enevt_id %v'', ''Bind error: %v'']\<rparr>) = (r4, w4\<lparr>logs := l2\<rparr>)"
    using bindEventImages_loop_logs[where eventID = eventID and ps = "h []" and w = w3
        and l = "logs w @ [''info: enevt_id %v'', ''Bind error: %v'']"] R
    by auto
  show ?thesis
    using B L1 L2
    by (simp add: bindEventImages_def Errorf_def db_Beginx_logs tx_Commit_logs defer_Rollback_def
          Let_def split: option.splits)
qed

lemma bindEventImages_loop_status:
  "bindEventImages_loop eventID ps w = (Some r, w') \<Longrightarrow>
     r = String StatusConflict ''duplicated: bind'' \<or> r = NoContent StatusInternalServerError"
  by (induction ps arbitrary: w)
     (auto simp: Let_def split: prod.splits option.splits if_splits)

lemma bindEventImages_never_400:
  "status (fst (bindEventImages eventID (Decoded ps) w)) \<noteq> StatusBadRequest"
proof -
  obtain b w3 where B: "db_Beginx (Errorf ''info: enevt_id %v'' w) = (b, w3)"
    by (cases "db_Beginx (Errorf ''info: enevt_id %v'' w)")
  obtain r4 w4 where R: "bindEventImages_loop eventID ps w3 = (r4, w4)"
    by (cases "bindEventImages_loop eventID ps w3")
  obtain c w5 where C: "tx_Commit w4 = (c, w5)"
    by (cases "tx_Commit w4")
  from bindEventImages_loop_status[of eventID ps w3 _ w4] R
  have "r4 = None \<or> r4 = Some (String StatusConflict ''duplicated: bind'') \<or>
      r4 = Some (NoContent StatusInternalServerError)"
    by (cases r4) auto
  with B R C show ?thesis
    by (auto simp: bindEventImages_def defer_Rollback_def Let_def split: option.splits)
qed

lemma malformed_body_goes_on:
  "postEvent (Malformed f) w = postEvent (Decoded (f zero_NewEvent)) w"
  "postPerson (Malformed g) w = postPerson (Decoded (g zero_Person)) (Errorf ''Bind error: %v'' w)"
  "fst (bindEventPersons eventID (Malformed h) w) = fst (bindEventPersons eventID (Decoded (h [])) w)"
  "fst (bindEventImages eventID (Malformed h') w) = fst (bindEventImages eventID (Decoded (h' [])) w)"
  by (simp_all add: bindEventPersons_malformed bindEventImages_malformed)
     (simp_all add: postEvent_def postPerson_def)

lemma malformed_body_never_400:
  "status (fst (postEvent (Malformed f) w)) \<noteq> StatusBadRequest"
  "status (fst (postPerson (Malformed g) w)) \<noteq> StatusBadRequest"
  "status (fst (bindEventPersons eventID (Malformed h) w)) \<noteq> StatusBadRequest"
  "status (fst (bindEventImages eventID (Malformed h') w)) \<noteq> StatusBadRequest"
  by (simp_all add: bindEventPersons_malformed bindEventImages_malformed
        bindEventPersons_never_400 bindEventImages_never_400)
     (simp_all add: postEvent_def postPerson_def store_steps split: option.splits if_splits)

text \<open>
  C6. On a body that cannot be decoded, \<open>postPerson\<close>, \<open>bindEventPersons\<close> and
  \<open>bindEventImages\<close> log "Bind error" and go on with the zero value. \<open>postEvent\<close> goes
  on with the zero value too (it answers 201 and inserts an event with empty fields), but
  its log has no entry for the failure: the run on the malformed body is the same, log
  included, as the run on a decoded zero-valued body. The body here is one of which
  nothing is decoded, such as \<open>{\<close>.
\<close>

theorem malformed_body_not_logged_by_postEvent:
  "postEvent (Malformed (\<lambda>t. t)) (fresh_world []) =
     postEvent (Decoded zero_NewEvent) (fresh_world []) \<and>
   fst (postEvent (Malformed (\<lambda>t. t)) (fresh_world [])) = JSON StatusCreated (IdMap ''EventID'' 1) \<and>
   logs (snd (postEvent (Malformed (\<lambda>t. t)) (fresh_world []))) = [''info: %v''] \<and>
   logs (snd (postPerson (Malformed (\<lambda>t. t)) (fresh_world []))) =
     [''Bind error: %v'', ''info: [%v] [%v] [%v]''] \<and>
   logs (snd (bindEventPersons ''7'' (Malformed (\<lambda>t. t)) (fresh_world []))) =
     [''info: enevt_id %v'', ''Bind error: %v''] \<and>
   logs (snd (bindEventImages ''7'' (Malformed (\<lambda>t. t)) (fresh_world []))) =
     [''info: enevt_id %v'', ''Bind error: %v'']"
  by (simp add: postEvent_def postPerson_def bindEventPersons_def bindEventImages_def
        store_steps zero_NewEvent_def zero_Person_def fresh_world_def fits_int_def)

section \<open>The list handlers' query text\<close>

text \<open>
  An offset without a \<open>%\<close> is appended as it is, whether or not there is a limit:
  \<open>Sprintf\<close> copies a format that has no directive.
\<close>

lemma Sprintf_without_percent: "CHR ''%'' \<notin> set s \<Longrightarrow> Sprintf s = s"
  by (induction s) auto

lemma db_Queryx_text_calls:
  "calls (snd (db_Queryx_text sql text w)) = calls w @ [QueryText text]"
  by (simp add: db_Queryx_text_def next_fault_answer record_call_def split: option.splits)

lemma rows_loop_calls: "calls (snd (rows_loop f rows acc w)) = calls w"
  by (induction rows arbitrary: acc w) (simp_all split: option.splits)

lemma list_handler_calls:
  "calls (snd (case db_Queryx_text sql query w of
           (Inl err, w1) \<Rightarrow>
             (NoContent StatusInternalServerError, Errorf ''failed to query: %v'' w1)
         | (Inr rows, w1) \<Rightarrow>
             (case rows_loop f rows [] w1 of
                (Inl r, w2) \<Rightarrow> (r, w2)
              | (Inr xs, w2) \<Rightarrow> (JSON StatusOK (g xs), w2)))) = calls w @ [QueryText query]"
proof -
  obtain res w1 where q: "db_Queryx_text sql query w = (res, w1)"
    by (cases "db_Queryx_text sql query w")
  with db_Queryx_text_calls[of sql query w] have c1: "calls w1 = calls w @ [QueryText query]"
    by simp
  show ?thesis
  proof (cases res)
    case (Inl e)
    with q c1 show ?thesis by simp
  next
    case (Inr rows)
    obtain res2 w2 where l: "rows_loop f rows [] w1 = (res2, w2)"
      by (cases "rows_loop f rows [] w1")
    with rows_loop_calls[of f rows "[]" w1] have "calls w2 = calls w1" by simp
    with q c1 Inr l show ?thesis by (cases res2) simp_all
  qed
qed

lemma offset_without_percent_appended:
  assumes "offset \<noteq> []" and "CHR ''%'' \<notin> set offset"
  shows "calls (snd (getEventList sql1 limit offset w)) = calls w @
       [QueryText (''select event_id, title, description, event_date from events'' @
          (if limit \<noteq> [] then Sprintf ('' limit '' @ limit) else []) @ '' offset '' @ offset)]"
    and "calls (snd (getPersonList sql2 limit offset w)) = calls w @
       [QueryText (''select * from persons'' @
          (if limit \<noteq> [] then Sprintf ('' limit '' @ limit) else []) @ '' offset '' @ offset)]"
    and "calls (snd (getImageList sql3 limit offset w)) = calls w @
       [QueryText (''select * from images'' @
          (if limit \<noteq> [] then Sprintf ('' limit '' @ limit) else []) @ '' offset '' @ offset)]"
proof -
  from assms(2) have s: "Sprintf ('' offset '' @ offset) = '' offset '' @ offset"
    by (intro Sprintf_without_percent) auto
  show "calls (snd (getEventList sql1 limit offset w)) = calls w @
       [QueryText (''select event_id, title, description, event_date from events'' @
          (if limit \<noteq> [] then Sprintf ('' limit '' @ limit) else []) @ '' offset '' @ offset)]"
    using assms(1) s unfolding getEventList_def Let_def list_handler_calls
    by simp
  show "calls (snd (getPersonList sql2 limit offset w)) = calls w @
       [QueryText (''select * from persons'' @
          (if limit \<noteq> [] then Sprintf ('' limit '' @ limit) else []) @ '' offset '' @ offset)]"
    using assms(1) s unfolding getPersonList_def Let_def list_handler_calls
    by simp
  show "calls (snd (getImageList sql3 limit offset w)) = calls w @
       [QueryText (''select * from images'' @
          (if limit \<noteq> [] then Sprintf ('' limit '' @ limit) else []) @ '' offset '' @ offset)]"
    using assms(1) s unfolding getImageList_def Let_def list_handler_calls
    by simp
qed

text \<open>
  C10. With no limit, the offset "10" is appended as it is. The offset "1%" is not:
  as the format of \<open>Sprintf\<close> without operands its \<open>%\<close> is a directive with no verb, and
  the text sent to the store ends in \<open>1%!(NOVERB)\<close>.
\<close>

theorem offset_with_percent_is_reformatted:
  "calls (snd (getPersonList (\<lambda>text d. persons d) [] ''1%'' (fresh_world []))) =
     [QueryText ''select * from persons offset 1%!(NOVERB)''] \<and>
   calls (snd (getEventList (\<lambda>text d. events d) [] ''1%'' (fresh_world []))) =
     [QueryText ''select event_id, title, description, event_date from events offset 1%!(NOVERB)''] \<and>
   calls (snd (getImageList (\<lambda>text d. images d) [] ''1%'' (fresh_world []))) =
     [QueryText ''select * from images offset 1%!(NOVERB)''] \<and>
   calls (snd (getPersonList (\<lambda>text d. persons d) [] ''10'' (fresh_world []))) =
     [QueryText ''select * from persons offset 10'']"
  by (simp add: getPersonList_def getEventList_def getImageList_def db_Queryx_text_def
        next_fault_answer record_call_def empty_db_def
        directive_def argNumber_def width_def precision_def verb_index_def parsenum_def)

section \<open>Startup\<close>

text \<open>
  The ways \<open>main\<close> ends. When \<open>ConnectDB\<close> returns an error, \<open>main\<close> ends fatally after
  that one step: the pool limit is not set and the server is not started. When it
  returns none, \<open>main\<close> sets the limit to 10 and starts the server, and ends fatally as
  soon as \<open>e.Start\<close> returns. Whether the store can be reached plays no part.
\<close>

lemma main_endings:
  "(ConnectDB env (NewMySQLConnectionEnv env) = Some err \<longrightarrow>
      main env = ([Connect (dsn_of (NewMySQLConnectionEnv env))],
                  Fatalf ''failed to connect db: %v'' err)) \<and>
   (ConnectDB env (NewMySQLConnectionEnv env) = None \<longrightarrow>
      fst (main env) = [Connect (dsn_of (NewMySQLConnectionEnv env)), SetMaxOpenConns 10,
                        Start '':1323''] \<and>
      (snd (main env) = Serving \<longleftrightarrow> e_Start env = None) \<and>
      (e_Start env = Some err' \<longrightarrow> snd (main env) = Fatal err')) \<and>
   (snd (main env) \<noteq> Serving \<longleftrightarrow>
      ConnectDB env (NewMySQLConnectionEnv env) \<noteq> None \<or> e_Start env \<noteq> None)"
  by (auto simp: main_def Let_def split: option.splits)

lemma main_ignores_store_reachable:
  "main (env\<lparr>store_reachable := b\<rparr>) = main env"
proof -
  have "NewMySQLConnectionEnv (env\<lparr>store_reachable := b\<rparr>) = NewMySQLConnectionEnv env"
    by (simp add: NewMySQLConnectionEnv_def getEnv_def)
  moreover have "ConnectDB (env\<lparr>store_reachable := b\<rparr>) mc = ConnectDB env mc" for mc
    by (simp add: ConnectDB_def sqlx_Open_def)
  ultimately show ?thesis
    by (simp add: main_def Let_def split: option.splits)
qed

lemma main_bad_dsn:
  "main bad_dsn =
     ([Connect ''poc_webapp:poc_webapp@tcp(127.0.0.1:3306)/poc_webapp?parseTime=true&loc=Asia%2FTokyo''],
      Fatalf ''failed to connect db: %v'' (OtherError ''invalid DSN''))"
  by (simp add: main_def bad_dsn_def ConnectDB_def sqlx_Open_def NewMySQLConnectionEnv_def
        getEnv_def dsn_of_def)

lemma main_port_in_use:
  "ConnectDB port_in_use (NewMySQLConnectionEnv port_in_use) = None \<and>
   fst (main port_in_use) =
     [Connect ''poc_webapp:poc_webapp@tcp(127.0.0.1:3306)/poc_webapp?parseTime=true&loc=Asia%2FTokyo'',
      SetMaxOpenConns 10, Start '':1323''] \<and>
   snd (main port_in_use) = Fatal (OtherError ''listen tcp :1323: bind: address already in use'')"
  by (simp add: main_def port_in_use_def ConnectDB_def sqlx_Open_def NewMySQLConnectionEnv_def
        getEnv_def dsn_of_def)

text \<open>
  C7. A startup at which the store cannot be reached, with a data source name the driver
  can read: \<open>ConnectDB\<close> returns no error, \<open>main\<close> sets the pool limit and starts the
  server, and the process keeps serving. The failure to reach the store comes out at the
  first request: the store's error on \<open>db.Get\<close> is answered 500.
\<close>

theorem unreachable_store_is_served:
  "store_reachable store_down = False \<and>
   ConnectDB store_down (NewMySQLConnectionEnv store_down) = None \<and>
   main store_down =
     ([Connect ''poc_webapp:poc_webapp@tcp(127.0.0.1:3306)/poc_webapp?parseTime=true&loc=Asia%2FTokyo'',
       SetMaxOpenConns 10, Start '':1323''], Serving) \<and>
   fst (getPerson ''1'' (fresh_world [Some (OtherError ''dial tcp 127.0.0.1:3306: connect: connection refused'')])) =
     NoContent StatusInternalServerError"
  by (simp add: main_def store_down_def ConnectDB_def sqlx_Open_def NewMySQLConnectionEnv_def
        getEnv_def dsn_of_def getPerson_def db_Get_person_full)

end
